theory Spec2Isabelle
  imports Complex_Main
begin

section \<open>JSON documents as Python sees them\<close>

text \<open>
  The values \<^verbatim>\<open>json.load\<close> produces: \<^verbatim>\<open>None\<close>, \<^verbatim>\<open>bool\<close>, \<^verbatim>\<open>int\<close>, \<^verbatim>\<open>float\<close>,
  \<^verbatim>\<open>str\<close>, \<^verbatim>\<open>list\<close> and \<^verbatim>\<open>dict\<close>. A dict is an association list in insertion order
  (looked up with \<open>map_of\<close>); a finite float is the rational it denotes. A string is the
  sequence of the bytes of its UTF-8 encoding; a lone surrogate, which a JSON escape can
  produce and which has no UTF-8 encoding, stands as the three bytes \<^verbatim>\<open>ED A0..BF xx\<close> of its
  generalized encoding. Integers are unbounded.
\<close>

datatype json =
    JNull
  | JBool bool
  | JInt int
  | JFloat rat
  | JStr string
  | JList "json list"
  | JObj "(string \<times> json) list"

type_synonym pydict = "(string \<times> json) list"

text \<open>\<^verbatim>\<open>d.get(k)\<close> and \<^verbatim>\<open>d.get(k, default)\<close>.\<close>

definition dict_get_default :: "pydict \<Rightarrow> string \<Rightarrow> json \<Rightarrow> json" where
  "dict_get_default d k dflt = (case map_of d k of None \<Rightarrow> dflt | Some v \<Rightarrow> v)"

definition dict_get :: "pydict \<Rightarrow> string \<Rightarrow> json" where
  "dict_get d k = dict_get_default d k JNull"


text \<open>\<^verbatim>\<open>d[k] = v\<close>: an existing key keeps its position, a new key goes last.\<close>

fun dict_set :: "pydict \<Rightarrow> string \<Rightarrow> json \<Rightarrow> pydict" where
  "dict_set [] k v = [(k, v)]"
| "dict_set ((k', v') # d) k v = (if k' = k then (k, v) # d else (k', v') # dict_set d k v)"

text \<open>Truth value of a Python object, as \<^verbatim>\<open>if x:\<close> tests it.\<close>

fun truthy :: "json \<Rightarrow> bool" where
  "truthy JNull = False"
| "truthy (JBool b) = b"
| "truthy (JInt n) = (n \<noteq> 0)"
| "truthy (JFloat r) = (r \<noteq> 0)"
| "truthy (JStr s) = (s \<noteq> [])"
| "truthy (JList xs) = (xs \<noteq> [])"
| "truthy (JObj d) = (d \<noteq> [])"

text \<open>
  \<^verbatim>\<open>isinstance(v, int)\<close> holds for \<^verbatim>\<open>int\<close> and for \<^verbatim>\<open>bool\<close>, its subclass;
  \<^verbatim>\<open>True\<close> compares, hashes and orders as 1 and \<^verbatim>\<open>False\<close> as 0, and each prints as itself.
\<close>

datatype pyint = PInt int | PBool bool

fun isinstance_int :: "json \<Rightarrow> pyint option" where
  "isinstance_int (JInt n) = Some (PInt n)"
| "isinstance_int (JBool b) = Some (PBool b)"
| "isinstance_int _ = None"

fun int_val :: "pyint \<Rightarrow> int" where
  "int_val (PInt n) = n"
| "int_val (PBool b) = (if b then 1 else 0)"

fun json_of_pyint :: "pyint \<Rightarrow> json" where
  "json_of_pyint (PInt n) = JInt n"
| "json_of_pyint (PBool b) = JBool b"

text \<open>\<^verbatim>\<open>v == 1\<close> for a JSON value.\<close>

fun equals_one :: "json \<Rightarrow> bool" where
  "equals_one (JInt n) = (n = 1)"
| "equals_one (JBool b) = b"
| "equals_one (JFloat r) = (r = 1)"
| "equals_one _ = False"

text \<open>
  Iterating a value in a \<^verbatim>\<open>for\<close> loop: a list gives its elements, a string its characters,
  a dict its keys; anything else is a \<^verbatim>\<open>TypeError\<close> (\<open>None\<close> here).
\<close>

fun py_iter :: "json \<Rightarrow> json list option" where
  "py_iter (JList xs) = Some xs"
| "py_iter (JStr s) = Some (map (\<lambda>c. JStr [c]) s)"
| "py_iter (JObj d) = Some (map (\<lambda>kv. JStr (fst kv)) d)"
| "py_iter _ = None"

section \<open>Errors\<close>

text \<open>
  A message is the sequence of the pieces its f-string joins: literal text, \<open>Str v\<close> for
  the text \<^verbatim>\<open>str(v)\<close> of a JSON value, and \<open>DecodeErrorText b\<close> for the text of the
  \<^verbatim>\<open>JSONDecodeError\<close> that loading the bytes \<open>b\<close> raises.

  The exceptions: the script's own \<^verbatim>\<open>ValidationError\<close> with its message, and the built-in ones
  that reach it: \<^verbatim>\<open>TypeError\<close>, \<^verbatim>\<open>ValueError\<close> (with its subclasses \<^verbatim>\<open>UnicodeEncodeError\<close>
  and \<^verbatim>\<open>UnicodeDecodeError\<close>), \<^verbatim>\<open>KeyError\<close>, and \<^verbatim>\<open>OSError\<close> by kind (\<open>NameTooLong\<close> is
  errno \<^verbatim>\<open>ENAMETOOLONG\<close>).
\<close>

datatype frag = Lit string | Str json | DecodeErrorText string

type_synonym message = "frag list"

datatype os_error =
    FileExistsError
  | NotADirectoryError
  | IsADirectoryError
  | SameFileError
  | FileNotFoundError
  | NameTooLong

datatype error =
    ValidationError message
  | TypeError
  | ValueError
  | KeyError string
  | OSError os_error

section \<open>Decimal text of integers\<close>

definition digit_char :: "nat \<Rightarrow> char" where
  "digit_char d = ''0123456789'' ! d"

function str_nat :: "nat \<Rightarrow> string" where
  "str_nat n = (if n < 10 then [digit_char n] else str_nat (n div 10) @ [digit_char (n mod 10)])"
  by pat_completeness auto
termination
  by (relation "measure (\<lambda>n. n)") auto

declare str_nat.simps [simp del]

definition str_int :: "int \<Rightarrow> string" where
  "str_int n = (if n < 0 then CHR ''-'' # str_nat (nat (- n)) else str_nat (nat n))"

fun str_pyint :: "pyint \<Rightarrow> string" where
  "str_pyint (PInt n) = str_int n"
| "str_pyint (PBool b) = (if b then ''True'' else ''False'')"

section \<open>Pure paths (\<^verbatim>\<open>pathlib.PurePosixPath\<close>)\<close>

text \<open>
  A path is its anchor (empty for a relative path, \<^verbatim>\<open>/\<close>, or \<^verbatim>\<open>//\<close> for exactly two leading
  slashes) and its components. Parsing a string drops empty and \<^verbatim>\<open>.\<close> components and keeps
  \<^verbatim>\<open>..\<close>.
\<close>

datatype path = Path (anchor: string) (parts: "string list")

fun split_slash :: "string \<Rightarrow> string list" where
  "split_slash [] = [[]]"
| "split_slash (c # cs) =
     (if c = CHR ''/'' then [] # split_slash cs
      else (case split_slash cs of [] \<Rightarrow> [[c]] | w # ws \<Rightarrow> (c # w) # ws))"

definition anchor_of_str :: "string \<Rightarrow> string" where
  "anchor_of_str s =
     (if take 2 s = ''//'' \<and> take 3 s \<noteq> ''///'' then ''//''
      else if take 1 s = ''/'' then ''/'' else [])"

definition path_of_str :: "string \<Rightarrow> path" where
  "path_of_str s = Path (anchor_of_str s) (filter (\<lambda>c. c \<noteq> [] \<and> c \<noteq> ''.'') (split_slash s))"

text \<open>\<^verbatim>\<open>sep.join(xs)\<close>, for strings and for messages.\<close>

fun py_join :: "'a list \<Rightarrow> 'a list list \<Rightarrow> 'a list" where
  "py_join sep [] = []"
| "py_join sep [x] = x"
| "py_join sep (x # y # zs) = x @ sep @ py_join sep (y # zs)"

text \<open>\<^verbatim>\<open>str(p)\<close> and \<^verbatim>\<open>p.as_posix()\<close>.\<close>

definition path_str :: "path \<Rightarrow> string" where
  "path_str p = (if anchor p = [] \<and> parts p = [] then ''.'' else anchor p @ py_join ''/'' (parts p))"

text \<open>\<^verbatim>\<open>p / q\<close>: an anchored right operand replaces the left one.\<close>

definition pjoin :: "path \<Rightarrow> path \<Rightarrow> path" where
  "pjoin p q = (if anchor q \<noteq> [] then q else Path (anchor p) (parts p @ parts q))"

definition pname :: "path \<Rightarrow> string" where
  "pname p = (if parts p = [] then [] else last (parts p))"

definition pparent :: "path \<Rightarrow> path" where
  "pparent p = Path (anchor p) (butlast (parts p))"

text \<open>\<^verbatim>\<open>p.relative_to(b)\<close> succeeds exactly when \<open>b\<close> is a prefix of \<open>p\<close>.\<close>

definition is_relative_to :: "path \<Rightarrow> path \<Rightarrow> bool" where
  "is_relative_to p b = (anchor p = anchor b \<and> take (length (parts b)) (parts p) = parts b)"

section \<open>The file system\<close>

text \<open>
  A file system without symbolic links, in which the process may read and write everywhere:
  the working directory (normalized components from the root) and the nodes by absolute
  normalized path; the root is always a directory. A file's content is the text of a JSON
  document, or UTF-8 text that is no JSON document, or bytes that are not UTF-8.
\<close>

datatype content = JsonText json | Blob string | Undecodable string

datatype node = File content | Dir

record filesystem =
  cwd :: "string list"
  nodes :: "(string list \<times> node) list"

definition node_at :: "filesystem \<Rightarrow> string list \<Rightarrow> node option" where
  "node_at fs ps = (if ps = [] then Some Dir else map_of (nodes fs) ps)"

definition put_node :: "filesystem \<Rightarrow> string list \<Rightarrow> node \<Rightarrow> filesystem" where
  "put_node fs ps n = fs\<lparr>nodes := (ps, n) # nodes fs\<rparr>"

text \<open>
  Names the operating-system calls refuse before they look at the disk: a name with a NUL
  byte (\<^verbatim>\<open>ValueError: embedded null byte\<close>) or with a lone surrogate
  (\<^verbatim>\<open>UnicodeEncodeError\<close>, a \<^verbatim>\<open>ValueError\<close>).
\<close>

fun has_surrogate :: "string \<Rightarrow> bool" where
  "has_surrogate (a # b # cs) =
     ((a = CHR 0xED \<and> (0xA0 :: nat) \<le> of_char b \<and> of_char b \<le> (0xBF :: nat)) \<or>
      has_surrogate (b # cs))"
| "has_surrogate cs = False"

definition bad_name :: "string \<Rightarrow> bool" where
  "bad_name c \<longleftrightarrow> CHR 0x00 \<in> set c \<or> has_surrogate c"

definition bad_path :: "path \<Rightarrow> bool" where
  "bad_path p = list_ex bad_name (parts p)"

text \<open>The limits of Linux on one component and on the whole text of a path.\<close>

definition NAME_MAX :: nat where
  "NAME_MAX = 255"

definition PATH_MAX :: nat where
  "PATH_MAX = 4096"

text \<open>
  \<^verbatim>\<open>Path.resolve()\<close> (non-strict): make absolute against the working directory and resolve
  \<^verbatim>\<open>..\<close> lexically, which is what \<^verbatim>\<open>realpath\<close> does where no component is a link. It calls
  \<^verbatim>\<open>lstat\<close> on every component, which raises \<^verbatim>\<open>ValueError\<close> for a refused name; every
  \<^verbatim>\<open>OSError\<close> of \<^verbatim>\<open>lstat\<close> is swallowed.
\<close>

fun collapse :: "string list \<Rightarrow> string list \<Rightarrow> string list" where
  "collapse acc [] = acc"
| "collapse acc (c # cs) = (if c = ''..'' then collapse (butlast acc) cs else collapse (acc @ [c]) cs)"

definition normalize :: "filesystem \<Rightarrow> path \<Rightarrow> path" where
  "normalize fs p = Path ''/'' (collapse (if anchor p = [] then cwd fs else []) (parts p))"

definition resolve :: "filesystem \<Rightarrow> path \<Rightarrow> error + path" where
  "resolve fs p = (if bad_path p then Inl ValueError else Inr (normalize fs p))"

text \<open>
  Looking a path up as the kernel does: the whole text must be shorter than \<open>PATH_MAX\<close>;
  then component by component, each directory on the way must exist and be a directory
  before the next name is looked up in it, and a name longer than \<open>NAME_MAX\<close> is refused
  there. \<^verbatim>\<open>..\<close> steps to the parent. The result is the location the path denotes.
\<close>

fun walk_ro :: "filesystem \<Rightarrow> string list \<Rightarrow> string list \<Rightarrow> os_error + string list" where
  "walk_ro fs cur [] = Inr cur"
| "walk_ro fs cur (c # cs) =
     (case node_at fs cur of
        None \<Rightarrow> Inl FileNotFoundError
      | Some (File x) \<Rightarrow> Inl NotADirectoryError
      | Some Dir \<Rightarrow>
          if c = ''..'' then walk_ro fs (butlast cur) cs
          else if NAME_MAX < length c then Inl NameTooLong
          else walk_ro fs (cur @ [c]) cs)"

definition locate :: "filesystem \<Rightarrow> path \<Rightarrow> error + string list" where
  "locate fs p =
     (if bad_path p then Inl ValueError
      else if PATH_MAX \<le> length (path_str p) then Inl (OSError NameTooLong)
      else
        (case walk_ro fs (if anchor p = [] then cwd fs else []) (parts p) of
           Inl e \<Rightarrow> Inl (OSError e)
         | Inr loc \<Rightarrow> Inr loc))"

text \<open>\<^verbatim>\<open>os.stat\<close>.\<close>

definition py_stat :: "filesystem \<Rightarrow> path \<Rightarrow> error + node" where
  "py_stat fs p =
     (case locate fs p of
        Inl e \<Rightarrow> Inl e
      | Inr loc \<Rightarrow>
          (case node_at fs loc of
             None \<Rightarrow> Inl (OSError FileNotFoundError)
           | Some n \<Rightarrow> Inr n))"

text \<open>
  \<^verbatim>\<open>Path.exists()\<close>: false for a missing path, for a file on the way and for a refused name;
  any other \<^verbatim>\<open>OSError\<close> of \<^verbatim>\<open>stat\<close> is raised again, \<^verbatim>\<open>ENAMETOOLONG\<close> among them.
\<close>

definition path_exists :: "filesystem \<Rightarrow> path \<Rightarrow> error + bool" where
  "path_exists fs p =
     (case py_stat fs p of
        Inr n \<Rightarrow> Inr True
      | Inl ValueError \<Rightarrow> Inr False
      | Inl (OSError FileNotFoundError) \<Rightarrow> Inr False
      | Inl (OSError NotADirectoryError) \<Rightarrow> Inr False
      | Inl e \<Rightarrow> Inl e)"

text \<open>\<^verbatim>\<open>os.path.isdir\<close>: false whenever \<^verbatim>\<open>stat\<close> raises.\<close>

definition is_dir :: "filesystem \<Rightarrow> path \<Rightarrow> bool" where
  "is_dir fs p = (py_stat fs p = Inr Dir)"

section \<open>Messages\<close>

definition sq :: frag where
  "sq = Lit [CHR 0x27]"

definition nl :: frag where
  "nl = Lit [CHR 0x0A]"

definition msg_invalid_path :: "string \<Rightarrow> string \<Rightarrow> message" where
  "msg_invalid_path mid fld =
     [Lit ''Module '', sq, Lit mid, sq, Lit '' has invalid '', Lit fld,
      Lit '': expected string path'']"

definition msg_missing_file :: "string \<Rightarrow> string \<Rightarrow> path \<Rightarrow> message" where
  "msg_missing_file mid fld relative_path =
     [Lit ''Module '', sq, Lit mid, sq, Lit '' references missing file for '', Lit fld,
      Lit '': '', Lit (path_str relative_path)]"

definition msg_must_stay_within :: "string \<Rightarrow> string \<Rightarrow> path \<Rightarrow> path \<Rightarrow> message" where
  "msg_must_stay_within mid fld base_dir relative_path =
     [Lit ''Module '', sq, Lit mid, sq, Lit '' '', Lit fld, Lit '' must stay within '',
      Lit (path_str base_dir), Lit ''. Got: '', Lit (path_str relative_path)]"

section \<open>\<^verbatim>\<open>ensure_relative_path\<close>\<close>

text \<open>
  The steps in the order of the source: the value is a non-empty string (line 72); the joined
  path is resolved (line 76) and so is the base directory (line 78), either of which raises
  \<^verbatim>\<open>ValueError\<close> for a refused name; the resolved location exists (line 83), a test that
  itself raises \<^verbatim>\<open>OSError\<close> for an over-long name; the resolved location is under the
  resolved base directory (line 89).
\<close>

definition ensure_relative_path ::
  "filesystem \<Rightarrow> path \<Rightarrow> json \<Rightarrow> string \<Rightarrow> string \<Rightarrow> error + path" where
  "ensure_relative_path fs base_dir relative_str fld mid =
     (case relative_str of
        JStr s \<Rightarrow>
          if s = [] then Inl (ValidationError (msg_invalid_path mid fld))
          else
            let relative_path = path_of_str s
            in (case resolve fs (pjoin base_dir relative_path) of
                  Inl e \<Rightarrow> Inl e
                | Inr resolved \<Rightarrow>
                    (case resolve fs base_dir of
                       Inl e \<Rightarrow> Inl e
                     | Inr base \<Rightarrow>
                         (case path_exists fs resolved of
                            Inl e \<Rightarrow> Inl e
                          | Inr False \<Rightarrow>
                              Inl (ValidationError (msg_missing_file mid fld relative_path))
                          | Inr True \<Rightarrow>
                              if \<not> is_relative_to resolved base
                              then Inl (ValidationError
                                     (msg_must_stay_within mid fld base_dir relative_path))
                              else Inr resolved)))
      | _ \<Rightarrow> Inl (ValidationError (msg_invalid_path mid fld)))"

section \<open>Validated modules\<close>

record lod_entry =
  level :: pyint
  mesh :: path
  collision :: "path option"

record module_asset =
  module_id :: string
  module_type :: string
  display_name :: json
  source :: pydict
  lods :: "lod_entry list"
  materials :: "path list"
  thumbnails :: "path list"
  extra_files :: "path list"

definition MODULE_TYPES :: "string set" where
  "MODULE_TYPES = {''hull'', ''wing'', ''exhaust'', ''interior''}"

text \<open>
  \<^verbatim>\<open>module_type not in MODULE_TYPES\<close> hashes its left operand: a list or a dict is
  unhashable and the test raises \<^verbatim>\<open>TypeError\<close> (\<open>None\<close> here).
\<close>

fun in_module_types :: "json \<Rightarrow> bool option" where
  "in_module_types (JList xs) = None"
| "in_module_types (JObj d) = None"
| "in_module_types (JStr s) = Some (s \<in> MODULE_TYPES)"
| "in_module_types _ = Some False"

definition msg_entry_not_object :: message where
  "msg_entry_not_object = [Lit ''Each module entry must be an object'']"

definition msg_missing_id :: message where
  "msg_missing_id = [Lit ''Module missing string '', sq, Lit ''id'', sq]"

text \<open>The text of \<^verbatim>\<open>sorted(MODULE_TYPES)\<close>.\<close>

definition allowed_text :: message where
  "allowed_text =
     [Lit ''['', sq, Lit ''exhaust'', sq, Lit '', '', sq, Lit ''hull'', sq, Lit '', '',
      sq, Lit ''interior'', sq, Lit '', '', sq, Lit ''wing'', sq, Lit '']'']"

definition msg_unsupported_type :: "string \<Rightarrow> json \<Rightarrow> message" where
  "msg_unsupported_type mid mtype =
     [Lit ''Module '', sq, Lit mid, sq, Lit '' has unsupported type '', sq, Str mtype, sq,
      Lit ''.'', Lit '' Allowed: ''] @ allowed_text"

definition msg_requires_lods :: "string \<Rightarrow> message" where
  "msg_requires_lods mid =
     [Lit ''Module '', sq, Lit mid, sq, Lit '' requires a non-empty '', sq, Lit ''lods'', sq,
      Lit '' array'']"

definition msg_lod_not_object :: "string \<Rightarrow> nat \<Rightarrow> message" where
  "msg_lod_not_object mid idx =
     [Lit ''Module '', sq, Lit mid, sq, Lit '' LOD #'', Lit (str_nat idx),
      Lit '' must be an object'']"

definition msg_invalid_level :: "string \<Rightarrow> json \<Rightarrow> message" where
  "msg_invalid_level mid lv =
     [Lit ''Module '', sq, Lit mid, sq, Lit '' has invalid LOD level: '', Str lv]"

definition msg_reuses_level :: "string \<Rightarrow> json \<Rightarrow> message" where
  "msg_reuses_level mid lv =
     [Lit ''Module '', sq, Lit mid, sq, Lit '' reuses LOD level '', Str lv]"

section \<open>\<^verbatim>\<open>parse_module\<close>\<close>

text \<open>
  The LOD loop: \<open>idx\<close> is the index \<^verbatim>\<open>enumerate\<close> gives, \<open>seen\<close> the set
  \<^verbatim>\<open>seen_levels\<close>, which is created anew on every call of \<^verbatim>\<open>parse_module\<close>.
\<close>

fun parse_lods ::
  "filesystem \<Rightarrow> path \<Rightarrow> string \<Rightarrow> nat \<Rightarrow> int set \<Rightarrow> json list \<Rightarrow> error + lod_entry list" where
  "parse_lods fs assets_dir mid idx seen [] = Inr []"
| "parse_lods fs assets_dir mid idx seen (lod # rest) =
     (case lod of
        JObj d \<Rightarrow>
          (case isinstance_int (dict_get d ''level'') of
             None \<Rightarrow> Inl (ValidationError (msg_invalid_level mid (dict_get d ''level'')))
           | Some lv \<Rightarrow>
               if int_val lv < 0
               then Inl (ValidationError (msg_invalid_level mid (dict_get d ''level'')))
               else if int_val lv \<in> seen
               then Inl (ValidationError (msg_reuses_level mid (dict_get d ''level'')))
               else
                 (case ensure_relative_path fs assets_dir (dict_get d ''mesh'') ''mesh'' mid of
                    Inl e \<Rightarrow> Inl e
                  | Inr mesh_path \<Rightarrow>
                      (case (if truthy (dict_get d ''collision'')
                             then (case ensure_relative_path fs assets_dir
                                          (dict_get d ''collision'') ''collision'' mid of
                                     Inl e \<Rightarrow> Inl e
                                   | Inr p \<Rightarrow> Inr (Some p))
                             else Inr None) of
                         Inl e \<Rightarrow> Inl e
                       | Inr collision_path \<Rightarrow>
                           (case parse_lods fs assets_dir mid (Suc idx)
                                   (insert (int_val lv) seen) rest of
                              Inl e \<Rightarrow> Inl e
                            | Inr entries \<Rightarrow>
                                Inr (\<lparr>level = lv, mesh = mesh_path,
                                      collision = collision_path\<rparr> # entries)))))
      | _ \<Rightarrow> Inl (ValidationError (msg_lod_not_object mid idx)))"

text \<open>One \<^verbatim>\<open>for\<close> loop that resolves every entry of a list, stopping at the first failure.\<close>

fun ensure_all :: "filesystem \<Rightarrow> path \<Rightarrow> string \<Rightarrow> string \<Rightarrow> json list \<Rightarrow> error + path list" where
  "ensure_all fs assets_dir fld mid [] = Inr []"
| "ensure_all fs assets_dir fld mid (x # xs) =
     (case ensure_relative_path fs assets_dir x fld mid of
        Inl e \<Rightarrow> Inl e
      | Inr p \<Rightarrow>
          (case ensure_all fs assets_dir fld mid xs of
             Inl e \<Rightarrow> Inl e
           | Inr ps \<Rightarrow> Inr (p # ps)))"

text \<open>\<^verbatim>\<open>for material in defn.get("materials", [])\<close>, and the same loop for \<^verbatim>\<open>extraFiles\<close>.\<close>

definition parse_path_list ::
  "filesystem \<Rightarrow> path \<Rightarrow> string \<Rightarrow> pydict \<Rightarrow> string \<Rightarrow> error + path list" where
  "parse_path_list fs assets_dir mid d key =
     (case py_iter (dict_get_default d key (JList [])) of
        None \<Rightarrow> Inl TypeError
      | Some xs \<Rightarrow> ensure_all fs assets_dir key mid xs)"

text \<open>
  The thumbnails: the list \<^verbatim>\<open>thumbnails\<close> when the field is a list, else the single string
  \<^verbatim>\<open>thumbnail\<close> when that is a string, else nothing.
\<close>

definition parse_thumbnails ::
  "filesystem \<Rightarrow> path \<Rightarrow> string \<Rightarrow> pydict \<Rightarrow> error + path list" where
  "parse_thumbnails fs assets_dir mid d =
     (case dict_get d ''thumbnails'' of
        JList ts \<Rightarrow> ensure_all fs assets_dir ''thumbnail'' mid ts
      | _ \<Rightarrow>
          (case dict_get d ''thumbnail'' of
             JStr s \<Rightarrow>
               (case ensure_relative_path fs assets_dir (JStr s) ''thumbnail'' mid of
                  Inl e \<Rightarrow> Inl e
                | Inr p \<Rightarrow> Inr [p])
           | _ \<Rightarrow> Inr []))"

text \<open>The part of \<^verbatim>\<open>parse_module\<close> after the identifier and the type are accepted.\<close>

definition parse_module_body ::
  "filesystem \<Rightarrow> path \<Rightarrow> pydict \<Rightarrow> string \<Rightarrow> string \<Rightarrow> error + module_asset" where
  "parse_module_body fs assets_dir d mid mtype =
     (case dict_get d ''lods'' of
        JList lod_raw \<Rightarrow>
          if lod_raw = [] then Inl (ValidationError (msg_requires_lods mid))
          else
            (case parse_lods fs assets_dir mid 0 {} lod_raw of
               Inl e \<Rightarrow> Inl e
             | Inr ls \<Rightarrow>
                 (case parse_path_list fs assets_dir mid d ''materials'' of
                    Inl e \<Rightarrow> Inl e
                  | Inr ms \<Rightarrow>
                      (case parse_thumbnails fs assets_dir mid d of
                         Inl e \<Rightarrow> Inl e
                       | Inr ts \<Rightarrow>
                           (case parse_path_list fs assets_dir mid d ''extraFiles'' of
                              Inl e \<Rightarrow> Inl e
                            | Inr es \<Rightarrow>
                                Inr \<lparr>module_id = mid, module_type = mtype,
                                     display_name = dict_get_default d ''displayName'' (JStr mid),
                                     source = d, lods = ls, materials = ms,
                                     thumbnails = ts, extra_files = es\<rparr>))))
      | _ \<Rightarrow> Inl (ValidationError (msg_requires_lods mid)))"

definition parse_module :: "filesystem \<Rightarrow> json \<Rightarrow> path \<Rightarrow> error + module_asset" where
  "parse_module fs defn assets_dir =
     (case defn of
        JObj d \<Rightarrow>
          (case dict_get d ''id'' of
             JStr mid \<Rightarrow>
               if mid = [] then Inl (ValidationError msg_missing_id)
               else
                 (case in_module_types (dict_get d ''type'') of
                    None \<Rightarrow> Inl TypeError
                  | Some False \<Rightarrow>
                      Inl (ValidationError (msg_unsupported_type mid (dict_get d ''type'')))
                  | Some True \<Rightarrow>
                      (case dict_get d ''type'' of
                         JStr mtype \<Rightarrow> parse_module_body fs assets_dir d mid mtype
                       | _ \<Rightarrow>
                           Inl (ValidationError
                                  (msg_unsupported_type mid (dict_get d ''type'')))))
           | _ \<Rightarrow> Inl (ValidationError msg_missing_id))
      | _ \<Rightarrow> Inl (ValidationError msg_entry_not_object))"

section \<open>Writing to the file system\<close>

text \<open>
  An operation that writes returns the file system it leaves behind together with its result,
  also when it raises.

  \<^verbatim>\<open>Path.mkdir(parents=True, exist_ok=True)\<close>: a refused name raises \<^verbatim>\<open>ValueError\<close> and an
  over-long text \<^verbatim>\<open>OSError\<close> before anything is made; then every prefix of the path is made
  a directory in turn, from the working directory for a relative path; \<^verbatim>\<open>..\<close> steps to the
  parent of the directory reached. A file in the way and an over-long component are an
  \<^verbatim>\<open>OSError\<close>, raised after the directories before them are made.
\<close>

fun mkdir_walk ::
  "filesystem \<Rightarrow> string list \<Rightarrow> string list \<Rightarrow> filesystem \<times> (error + string list)" where
  "mkdir_walk fs cur [] = (fs, Inr cur)"
| "mkdir_walk fs cur (c # cs) =
     (if c = ''..'' then mkdir_walk fs (butlast cur) cs
      else if NAME_MAX < length c then (fs, Inl (OSError NameTooLong))
      else
        (case node_at fs (cur @ [c]) of
           None \<Rightarrow> mkdir_walk (put_node fs (cur @ [c]) Dir) (cur @ [c]) cs
         | Some Dir \<Rightarrow> mkdir_walk fs (cur @ [c]) cs
         | Some (File x) \<Rightarrow>
             (fs, Inl (OSError (if cs = [] then FileExistsError else NotADirectoryError)))))"

definition mkdir_parents :: "filesystem \<Rightarrow> path \<Rightarrow> filesystem \<times> (error + string list)" where
  "mkdir_parents fs p =
     (if bad_path p then (fs, Inl ValueError)
      else if PATH_MAX \<le> length (path_str p) then (fs, Inl (OSError NameTooLong))
      else mkdir_walk fs (if anchor p = [] then cwd fs else []) (parts p))"

text \<open>\<^verbatim>\<open>os.path.samefile\<close> inside \<^verbatim>\<open>shutil\<close>, where an \<^verbatim>\<open>OSError\<close> of \<^verbatim>\<open>stat\<close> means "not the same".\<close>

definition same_file :: "filesystem \<Rightarrow> path \<Rightarrow> path \<Rightarrow> bool" where
  "same_file fs p q =
     (case locate fs p of
        Inl e \<Rightarrow> False
      | Inr a \<Rightarrow>
          (case locate fs q of
             Inl e \<Rightarrow> False
           | Inr b \<Rightarrow> a = b \<and> node_at fs a \<noteq> None))"

text \<open>
  \<^verbatim>\<open>shutil.copy2(src, dst)\<close>: a destination that is a directory receives the file under the
  source's name; a refused name raises \<^verbatim>\<open>ValueError\<close>; copying a file onto itself, reading a
  directory or a missing file, and writing onto a directory or to an over-long name raise
  an \<^verbatim>\<open>OSError\<close>.
\<close>

definition copy2 :: "filesystem \<Rightarrow> path \<Rightarrow> path \<Rightarrow> filesystem \<times> (error + unit)" where
  "copy2 fs src dst =
     (let dst' = (if is_dir fs dst then pjoin dst (path_of_str (pname src)) else dst)
      in if bad_path src \<or> bad_path dst' then (fs, Inl ValueError)
         else if same_file fs src dst' then (fs, Inl (OSError SameFileError))
         else
           (case py_stat fs src of
              Inl e \<Rightarrow> (fs, Inl e)
            | Inr Dir \<Rightarrow> (fs, Inl (OSError IsADirectoryError))
            | Inr (File c) \<Rightarrow>
                (case locate fs dst' of
                   Inl e \<Rightarrow> (fs, Inl e)
                 | Inr loc \<Rightarrow>
                     (case node_at fs loc of
                        Some Dir \<Rightarrow> (fs, Inl (OSError IsADirectoryError))
                      | _ \<Rightarrow> (put_node fs loc (File c), Inr ())))))"

text \<open>The two statements under \<^verbatim>\<open>if not dry_run\<close> in \<^verbatim>\<open>copy_into_bundle\<close>.\<close>

definition copy_to_dest :: "filesystem \<Rightarrow> path \<Rightarrow> path \<Rightarrow> filesystem \<times> (error + unit)" where
  "copy_to_dest fs src dest =
     (case mkdir_parents fs (pparent dest) of
        (fs1, Inl e) \<Rightarrow> (fs1, Inl e)
      | (fs1, Inr dir) \<Rightarrow> copy2 fs1 src dest)"

section \<open>\<^verbatim>\<open>copy_into_bundle\<close>\<close>

text \<open>\<^verbatim>\<open>rel_target = target_subdir / src.name\<close>\<close>

definition rel_target_of :: "path \<Rightarrow> path \<Rightarrow> path" where
  "rel_target_of target_subdir src = pjoin target_subdir (path_of_str (pname src))"

fun copy_into_bundle ::
  "filesystem \<Rightarrow> path list \<Rightarrow> path \<Rightarrow> path \<Rightarrow> bool \<Rightarrow> filesystem \<times> (error + string list)" where
  "copy_into_bundle fs [] bundle_root target_subdir dry = (fs, Inr [])"
| "copy_into_bundle fs (src # rest) bundle_root target_subdir dry =
     (let rel_target = rel_target_of target_subdir src;
          dest = pjoin bundle_root rel_target
      in case (if dry then (fs, Inr ()) else copy_to_dest fs src dest) of
           (fs1, Inl e) \<Rightarrow> (fs1, Inl e)
         | (fs1, Inr u) \<Rightarrow>
             (case copy_into_bundle fs1 rest bundle_root target_subdir dry of
                (fs2, Inl e) \<Rightarrow> (fs2, Inl e)
              | (fs2, Inr copied) \<Rightarrow> (fs2, Inr (path_str rel_target # copied))))"

section \<open>\<^verbatim>\<open>build_bundle\<close>\<close>

definition module_target_of :: "module_asset \<Rightarrow> path" where
  "module_target_of m =
     pjoin (pjoin (path_of_str ''modules'') (path_of_str (module_type m)))
           (path_of_str (module_id m))"

definition lod_files :: "lod_entry \<Rightarrow> path list" where
  "lod_files lod = mesh lod # (case collision lod of None \<Rightarrow> [] | Some c \<Rightarrow> [c])"

definition lod_subdir :: "path \<Rightarrow> lod_entry \<Rightarrow> path" where
  "lod_subdir module_target lod = pjoin module_target (path_of_str (''lod_'' @ str_pyint (level lod)))"

text \<open>
  The dict built for one LOD; \<open>copied\<close> has one entry per file of \<open>lod_files\<close>, so both
  indices are in range.
\<close>

definition lod_record :: "lod_entry \<Rightarrow> string list \<Rightarrow> json" where
  "lod_record lod copied =
     JObj ([(''level'', json_of_pyint (level lod)), (''mesh'', JStr (copied ! 0))] @
           (case collision lod of None \<Rightarrow> [] | Some c \<Rightarrow> [(''collision'', JStr (copied ! 1))]))"

fun copy_lods ::
  "filesystem \<Rightarrow> lod_entry list \<Rightarrow> path \<Rightarrow> path \<Rightarrow> bool \<Rightarrow> filesystem \<times> (error + json list)" where
  "copy_lods fs [] output_dir module_target dry = (fs, Inr [])"
| "copy_lods fs (lod # rest) output_dir module_target dry =
     (case copy_into_bundle fs (lod_files lod) output_dir (lod_subdir module_target lod) dry of
        (fs1, Inl e) \<Rightarrow> (fs1, Inl e)
      | (fs1, Inr copied) \<Rightarrow>
          (case copy_lods fs1 rest output_dir module_target dry of
             (fs2, Inl e) \<Rightarrow> (fs2, Inl e)
           | (fs2, Inr lod_outputs) \<Rightarrow> (fs2, Inr (lod_record lod copied # lod_outputs))))"

definition optional_keys :: "string list" where
  "optional_keys =
     [''description'', ''sockets'', ''interiorAnchor'', ''metrics'', ''compatibleSockets'',
      ''mirrorOf'', ''tags'', ''dependencies'', ''vfxHooks'']"

text \<open>\<^verbatim>\<open>if optional_key in module.source: sanitized[optional_key] = module.source[optional_key]\<close>\<close>

definition copy_key :: "pydict \<Rightarrow> pydict \<Rightarrow> string \<Rightarrow> pydict" where
  "copy_key src sanitized k =
     (case map_of src k of None \<Rightarrow> sanitized | Some v \<Rightarrow> dict_set sanitized k v)"

definition set_if_nonempty :: "pydict \<Rightarrow> string \<Rightarrow> string list \<Rightarrow> pydict" where
  "set_if_nonempty sanitized k xs =
     (if xs \<noteq> [] then dict_set sanitized k (JList (map JStr xs)) else sanitized)"

definition sanitize ::
  "module_asset \<Rightarrow> json list \<Rightarrow> string list \<Rightarrow> string list \<Rightarrow> string list \<Rightarrow> pydict" where
  "sanitize m lod_outputs materials_out thumbs_out extras_out =
     set_if_nonempty
       (set_if_nonempty
          (set_if_nonempty
             (foldl (copy_key (source m))
                [(''id'', JStr (module_id m)), (''type'', JStr (module_type m)),
                 (''displayName'', display_name m), (''lods'', JList lod_outputs)]
                optional_keys)
             ''materials'' materials_out)
          ''thumbnails'' thumbs_out)
       ''extraFiles'' extras_out"

text \<open>The body of the module loop once \<^verbatim>\<open>parse_module\<close> has returned.\<close>

definition bundle_module ::
  "filesystem \<Rightarrow> module_asset \<Rightarrow> path \<Rightarrow> bool \<Rightarrow> filesystem \<times> (error + json)" where
  "bundle_module fs m output_dir dry =
     (let module_target = module_target_of m
      in case copy_lods fs (lods m) output_dir module_target dry of
           (fs1, Inl e) \<Rightarrow> (fs1, Inl e)
         | (fs1, Inr lod_outputs) \<Rightarrow>
         (case copy_into_bundle fs1 (materials m) output_dir
                 (pjoin module_target (path_of_str ''materials'')) dry of
            (fs2, Inl e) \<Rightarrow> (fs2, Inl e)
          | (fs2, Inr materials_out) \<Rightarrow>
          (case copy_into_bundle fs2 (thumbnails m) output_dir
                  (pjoin module_target (path_of_str ''thumbnails'')) dry of
             (fs3, Inl e) \<Rightarrow> (fs3, Inl e)
           | (fs3, Inr thumbs_out) \<Rightarrow>
           (case copy_into_bundle fs3 (extra_files m) output_dir
                   (pjoin module_target (path_of_str ''extras'')) dry of
              (fs4, Inl e) \<Rightarrow> (fs4, Inl e)
            | (fs4, Inr extras_out) \<Rightarrow>
                (fs4, Inr (JObj (sanitize m lod_outputs materials_out thumbs_out extras_out)))))))"

text \<open>
  The module loop with its two accumulators. Only a \<^verbatim>\<open>ValidationError\<close> of
  \<^verbatim>\<open>parse_module\<close> is caught and recorded; any other exception leaves the loop.
\<close>

fun build_modules ::
  "filesystem \<Rightarrow> path \<Rightarrow> path \<Rightarrow> bool \<Rightarrow> json list \<Rightarrow> message list \<Rightarrow> json list \<Rightarrow>
   filesystem \<times> (error + json list \<times> message list)" where
  "build_modules fs assets_dir output_dir dry modules_out errors [] =
     (fs, Inr (modules_out, errors))"
| "build_modules fs assets_dir output_dir dry modules_out errors (module_def # rest) =
     (case parse_module fs module_def assets_dir of
        Inl (ValidationError msg) \<Rightarrow>
          build_modules fs assets_dir output_dir dry modules_out (errors @ [msg]) rest
      | Inl e \<Rightarrow> (fs, Inl e)
      | Inr m \<Rightarrow>
          (case bundle_module fs m output_dir dry of
             (fs1, Inl e) \<Rightarrow> (fs1, Inl e)
           | (fs1, Inr sanitized) \<Rightarrow>
               build_modules fs1 assets_dir output_dir dry (modules_out @ [sanitized]) errors rest))"

definition msg_build_failed :: "message list \<Rightarrow> message" where
  "msg_build_failed errors =
     [Lit ''Build failed with '', Lit (str_nat (length errors)), Lit '' error(s):'', nl] @
     py_join [nl] errors"

definition compiled_name :: string where
  "compiled_name = ''ship_art_manifest.compiled.json''"

text \<open>The block under \<^verbatim>\<open>if not dry_run\<close> at the end of \<^verbatim>\<open>build_bundle\<close>.\<close>

definition write_compiled :: "filesystem \<Rightarrow> path \<Rightarrow> pydict \<Rightarrow> filesystem \<times> (error + unit)" where
  "write_compiled fs output_dir compiled =
     (case mkdir_parents fs output_dir of
        (fs1, Inl e) \<Rightarrow> (fs1, Inl e)
      | (fs1, Inr dir) \<Rightarrow>
          (case locate fs1 (pjoin output_dir (path_of_str compiled_name)) of
             Inl e \<Rightarrow> (fs1, Inl e)
           | Inr loc \<Rightarrow>
               (case node_at fs1 loc of
                  Some Dir \<Rightarrow> (fs1, Inl (OSError IsADirectoryError))
                | _ \<Rightarrow> (put_node fs1 loc (File (JsonText (JObj compiled))), Inr ()))))"

definition build_bundle ::
  "filesystem \<Rightarrow> path \<Rightarrow> pydict \<Rightarrow> path \<Rightarrow> bool \<Rightarrow> filesystem \<times> (error + pydict)" where
  "build_bundle fs assets_dir manifest output_dir dry =
     (case map_of manifest ''modules'' of
        None \<Rightarrow> (fs, Inl (KeyError ''modules''))
      | Some ms \<Rightarrow>
          (case py_iter ms of
             None \<Rightarrow> (fs, Inl TypeError)
           | Some defs \<Rightarrow>
               (case build_modules fs assets_dir output_dir dry [] [] defs of
                  (fs1, Inl e) \<Rightarrow> (fs1, Inl e)
                | (fs1, Inr (modules_out, errors)) \<Rightarrow>
                    if errors \<noteq> [] then (fs1, Inl (ValidationError (msg_build_failed errors)))
                    else
                      (case map_of manifest ''version'' of
                         None \<Rightarrow> (fs1, Inl (KeyError ''version''))
                       | Some v \<Rightarrow>
                           (let compiled = [(''version'', v), (''generated'', JBool True),
                                            (''modules'', JList modules_out)]
                            in if dry then (fs1, Inr compiled)
                               else
                                 (case write_compiled fs1 output_dir compiled of
                                    (fs2, Inl e) \<Rightarrow> (fs2, Inl e)
                                  | (fs2, Inr u) \<Rightarrow> (fs2, Inr compiled)))))))"

section \<open>\<^verbatim>\<open>read_manifest\<close>\<close>

text \<open>Opening a file for reading.\<close>

definition open_read :: "filesystem \<Rightarrow> path \<Rightarrow> error + content" where
  "open_read fs p =
     (case py_stat fs p of
        Inl e \<Rightarrow> Inl e
      | Inr Dir \<Rightarrow> Inl (OSError IsADirectoryError)
      | Inr (File c) \<Rightarrow> Inr c)"

definition msg_manifest_not_found :: "path \<Rightarrow> message" where
  "msg_manifest_not_found manifest_path = [Lit ''Manifest not found: '', Lit (path_str manifest_path)]"

definition msg_manifest_invalid :: "string \<Rightarrow> message" where
  "msg_manifest_invalid bytes = [Lit ''Manifest JSON is invalid: '', DecodeErrorText bytes]"

definition msg_root_object :: message where
  "msg_root_object = [Lit ''Manifest root must be an object'']"

definition msg_version :: message where
  "msg_version = [Lit ''Manifest version 1 expected. Update the pipeline if schema changes.'']"

definition msg_modules_array :: message where
  "msg_modules_array =
     [Lit ''Manifest requires a non-empty '', sq, Lit ''modules'', sq, Lit '' array'']"

text \<open>The three checks on the loaded document, in the order of the source.\<close>

definition check_manifest :: "json \<Rightarrow> error + pydict" where
  "check_manifest data =
     (case data of
        JObj d \<Rightarrow>
          if \<not> equals_one (dict_get d ''version'') then Inl (ValidationError msg_version)
          else
            (case dict_get d ''modules'' of
               JList ms \<Rightarrow>
                 if ms = [] then Inl (ValidationError msg_modules_array) else Inr d
             | _ \<Rightarrow> Inl (ValidationError msg_modules_array))
      | _ \<Rightarrow> Inl (ValidationError msg_root_object))"

text \<open>
  Only \<^verbatim>\<open>FileNotFoundError\<close> and \<^verbatim>\<open>JSONDecodeError\<close> are caught: any other error of
  \<^verbatim>\<open>open\<close>, and the \<^verbatim>\<open>UnicodeDecodeError\<close> of a file that is not UTF-8, leave the function.
\<close>

definition read_manifest :: "filesystem \<Rightarrow> path \<Rightarrow> error + pydict" where
  "read_manifest fs manifest_path =
     (case open_read fs manifest_path of
        Inl (OSError FileNotFoundError) \<Rightarrow>
          Inl (ValidationError (msg_manifest_not_found manifest_path))
      | Inl e \<Rightarrow> Inl e
      | Inr (Blob bytes) \<Rightarrow> Inl (ValidationError (msg_manifest_invalid bytes))
      | Inr (Undecodable bytes) \<Rightarrow> Inl ValueError
      | Inr (JsonText data) \<Rightarrow> check_manifest data)"

section \<open>\<^verbatim>\<open>main\<close>\<close>

record args =
  arg_assets_dir :: path
  arg_manifest :: "path option"
  arg_output_dir :: path
  arg_dry_run :: bool

text \<open>
  What a run leaves: the file system, the exit status (or the exception that escaped), and the
  lines printed to standard output and to standard error.
\<close>

record run =
  run_fs :: filesystem
  run_status :: "error + int"
  run_stdout :: "message list"
  run_stderr :: "message list"

text \<open>\<^verbatim>\<open>args.manifest or (assets_dir / "ship_art_manifest.json")\<close>\<close>

definition manifest_path_of :: "args \<Rightarrow> path" where
  "manifest_path_of a =
     (case arg_manifest a of
        Some p \<Rightarrow> p
      | None \<Rightarrow> pjoin (arg_assets_dir a) (path_of_str ''ship_art_manifest.json''))"

definition main :: "filesystem \<Rightarrow> args \<Rightarrow> run" where
  "main fs a =
     (let manifest_path = manifest_path_of a
      in case read_manifest fs manifest_path of
           Inl (ValidationError msg) \<Rightarrow>
             \<lparr>run_fs = fs, run_status = Inr 1, run_stdout = [],
              run_stderr = [Lit ''error: '' # msg]\<rparr>
         | Inl e \<Rightarrow> \<lparr>run_fs = fs, run_status = Inl e, run_stdout = [], run_stderr = []\<rparr>
         | Inr manifest \<Rightarrow>
             (case build_bundle fs (arg_assets_dir a) manifest (arg_output_dir a) (arg_dry_run a) of
                (fs1, Inl (ValidationError msg)) \<Rightarrow>
                  \<lparr>run_fs = fs1, run_status = Inr 1, run_stdout = [],
                   run_stderr = [Lit ''error: '' # msg]\<rparr>
              | (fs1, Inl e) \<Rightarrow>
                  \<lparr>run_fs = fs1, run_status = Inl e, run_stdout = [], run_stderr = []\<rparr>
              | (fs1, Inr compiled) \<Rightarrow>
                  \<lparr>run_fs = fs1, run_status = Inr 0,
                   run_stdout =
                     [[Lit ''Packaged '',
                       Lit (str_nat (case dict_get compiled ''modules'' of
                                       JList ms \<Rightarrow> length ms | _ \<Rightarrow> 0)),
                       Lit '' module(s) into '', Lit (path_str (arg_output_dir a))],
                      (if arg_dry_run a then [Lit ''Dry-run complete. No files were written.'']
                       else [Lit ''Wrote compiled manifest: '',
                             Lit (path_str (pjoin (arg_output_dir a)
                                              (path_of_str compiled_name)))])],
                   run_stderr = []\<rparr>))"

section \<open>Notions used to state the properties\<close>

text \<open>The strings \<^verbatim>\<open>copy_into_bundle\<close> reports for a list of files.\<close>

definition dest_strings :: "path \<Rightarrow> path list \<Rightarrow> string list" where
  "dest_strings target_subdir files = map (\<lambda>src. path_str (rel_target_of target_subdir src)) files"

text \<open>The record of a validated module, computed from the module alone.\<close>

definition record_of :: "module_asset \<Rightarrow> json" where
  "record_of m =
     JObj (sanitize m
       (map (\<lambda>lod. lod_record lod (dest_strings (lod_subdir (module_target_of m) lod) (lod_files lod)))
            (lods m))
       (dest_strings (pjoin (module_target_of m) (path_of_str ''materials'')) (materials m))
       (dest_strings (pjoin (module_target_of m) (path_of_str ''thumbnails'')) (thumbnails m))
       (dest_strings (pjoin (module_target_of m) (path_of_str ''extras'')) (extra_files m)))"

text \<open>
  \<open>fs'\<close> extends \<open>fs\<close>: same working directory, and every node of \<open>fs\<close> is still there
  as a node of the same kind (a file may have new content).
\<close>

definition extends :: "filesystem \<Rightarrow> filesystem \<Rightarrow> bool" where
  "extends fs fs' \<longleftrightarrow>
     cwd fs' = cwd fs \<and>
     (\<forall>p n. node_at fs p = Some n \<longrightarrow> (\<exists>n'. node_at fs' p = Some n' \<and> (n' = Dir \<longleftrightarrow> n = Dir)))"

text \<open>An exception of the operating-system calls: \<^verbatim>\<open>OSError\<close> or \<^verbatim>\<open>ValueError\<close>.\<close>

definition os_failure :: "error \<Rightarrow> bool" where
  "os_failure e = (case e of OSError x \<Rightarrow> True | ValueError \<Rightarrow> True | _ \<Rightarrow> False)"

text \<open>
  What becomes of one module in the loop of \<^verbatim>\<open>build_bundle\<close>: its validation fails with a
  message, or it is bundled into a record, or some other exception is raised. \<open>run_all\<close>
  visits every module of the list in turn, whatever became of the ones before, and returns
  the file system at the end with what became of each module.
\<close>

datatype outcome = Failed message | Bundled json | Raised error

definition module_outcome ::
  "filesystem \<Rightarrow> path \<Rightarrow> path \<Rightarrow> bool \<Rightarrow> json \<Rightarrow> filesystem \<times> outcome" where
  "module_outcome fs assets_dir output_dir dry module_def =
     (case parse_module fs module_def assets_dir of
        Inl (ValidationError msg) \<Rightarrow> (fs, Failed msg)
      | Inl e \<Rightarrow> (fs, Raised e)
      | Inr m \<Rightarrow>
          (case bundle_module fs m output_dir dry of
             (fs1, Inl e) \<Rightarrow> (fs1, Raised e)
           | (fs1, Inr r) \<Rightarrow> (fs1, Bundled r)))"

fun run_all ::
  "filesystem \<Rightarrow> path \<Rightarrow> path \<Rightarrow> bool \<Rightarrow> json list \<Rightarrow> filesystem \<times> outcome list" where
  "run_all fs assets_dir output_dir dry [] = (fs, [])"
| "run_all fs assets_dir output_dir dry (module_def # rest) =
     (case module_outcome fs assets_dir output_dir dry module_def of
        (fs1, x) \<Rightarrow>
          (case run_all fs1 assets_dir output_dir dry rest of
             (fs2, xs) \<Rightarrow> (fs2, x # xs)))"

fun failures :: "outcome list \<Rightarrow> message list" where
  "failures [] = []"
| "failures (Failed msg # xs) = msg # failures xs"
| "failures (x # xs) = failures xs"

fun records :: "outcome list \<Rightarrow> json list" where
  "records [] = []"
| "records (Bundled r # xs) = r # records xs"
| "records (x # xs) = records xs"

fun is_raised :: "outcome \<Rightarrow> bool" where
  "is_raised (Raised e) = True"
| "is_raised x = False"

text \<open>The failure messages of \<^verbatim>\<open>parse_module\<close> over a list of modules, in order.\<close>

fun validation_failure :: "error + module_asset \<Rightarrow> message list" where
  "validation_failure (Inl (ValidationError msg)) = [msg]"
| "validation_failure x = []"

text \<open>The level of a raw LOD entry as the integer the duplicate test compares.\<close>

definition lod_level :: "json \<Rightarrow> int option" where
  "lod_level lod =
     (case lod of
        JObj d \<Rightarrow> map_option int_val (isinstance_int (dict_get d ''level''))
      | _ \<Rightarrow> None)"

text \<open>A dict without one key.\<close>

definition without :: "string \<Rightarrow> pydict \<Rightarrow> pydict" where
  "without k d = filter (\<lambda>kv. fst kv \<noteq> k) d"

text \<open>\<^verbatim>\<open>isinstance(v, list)\<close>.\<close>

fun is_list :: "json \<Rightarrow> bool" where
  "is_list (JList xs) = True"
| "is_list v = False"

text \<open>
  A component as \<^verbatim>\<open>pathlib\<close> keeps it in a path (non-empty, not \<^verbatim>\<open>.\<close>, without a slash), and a
  plain component, which in addition is not \<^verbatim>\<open>..\<close>.
\<close>

definition pathlike :: "string \<Rightarrow> bool" where
  "pathlike c \<longleftrightarrow> c \<noteq> [] \<and> c \<noteq> ''.'' \<and> CHR ''/'' \<notin> set c"

definition plain :: "string \<Rightarrow> bool" where
  "plain c \<longleftrightarrow> pathlike c \<and> c \<noteq> ''..''"

text \<open>
  A text that \<^verbatim>\<open>pathlib\<close> keeps as it is: a relative path whose components, as the slashes
  separate them, are all non-empty and none is \<^verbatim>\<open>.\<close> (so no leading, trailing or doubled
  slash).
\<close>

definition normal_text :: "string \<Rightarrow> bool" where
  "normal_text s = list_all (\<lambda>c. c \<noteq> [] \<and> c \<noteq> ''.'') (split_slash s)"

text \<open>The text of a directory path followed by a slash, as it starts the paths below it.\<close>

definition dir_text :: "path \<Rightarrow> string" where
  "dir_text p = anchor p @ concat (map (\<lambda>c. c @ ''/'') (parts p))"

text \<open>The text that starts every destination of a module.\<close>

definition module_prefix :: "module_asset \<Rightarrow> string" where
  "module_prefix m = dir_text (module_target_of m)"

section \<open>Example inputs\<close>

text \<open>
  A small tree under the working directory \<^verbatim>\<open>/w\<close>: the asset root \<^verbatim>\<open>a\<close> with two meshes and
  two images, and a file \<^verbatim>\<open>/w/s\<close> outside the asset root.
\<close>

definition ex_fs :: filesystem where
  "ex_fs = \<lparr>cwd = [''w''],
            nodes = [([''w''], Dir), ([''w'', ''a''], Dir),
                     ([''w'', ''a'', ''m.obj''], File (Blob ''M'')),
                     ([''w'', ''a'', ''c.obj''], File (Blob ''C'')),
                     ([''w'', ''a'', ''t.png''], File (Blob ''T'')),
                     ([''w'', ''a'', ''u.png''], File (Blob ''U'')),
                     ([''w'', ''s''], File (Blob ''S''))]\<rparr>"

definition ex_assets :: path where
  "ex_assets = Path [] [''a'']"

definition ex_out :: path where
  "ex_out = Path [] [''o'']"

text \<open>A manifest of an unsupported version whose only module entry is not even an object.\<close>

definition ex_bad_version :: json where
  "ex_bad_version = JObj [(''version'', JInt 2), (''modules'', JList [JInt 5])]"

definition ex_fs_bad_version :: filesystem where
  "ex_fs_bad_version =
     put_node ex_fs [''w'', ''a'', ''ship_art_manifest.json''] (File (JsonText ex_bad_version))"

definition ex_args :: args where
  "ex_args = \<lparr>arg_assets_dir = ex_assets, arg_manifest = None, arg_output_dir = ex_out,
              arg_dry_run = False\<rparr>"

text \<open>A hull module with one LOD, a legacy thumbnail and one pass-through key, and what
  \<^verbatim>\<open>parse_module\<close> and the module loop make of it.\<close>

definition ex_module :: json where
  "ex_module =
     JObj [(''id'', JStr ''h''), (''type'', JStr ''hull''),
           (''lods'', JList [JObj [(''level'', JInt 0), (''mesh'', JStr ''m.obj''),
                                   (''collision'', JStr ''c.obj'')]]),
           (''thumbnail'', JStr ''t.png''), (''tags'', JList [JStr ''x''])]"

definition ex_asset :: module_asset where
  "ex_asset =
     \<lparr>module_id = ''h'', module_type = ''hull'', display_name = JStr ''h'',
      source = [(''id'', JStr ''h''), (''type'', JStr ''hull''),
                (''lods'', JList [JObj [(''level'', JInt 0), (''mesh'', JStr ''m.obj''),
                                        (''collision'', JStr ''c.obj'')]]),
                (''thumbnail'', JStr ''t.png''), (''tags'', JList [JStr ''x''])],
      lods = [\<lparr>level = PInt 0, mesh = Path ''/'' [''w'', ''a'', ''m.obj''],
               collision = Some (Path ''/'' [''w'', ''a'', ''c.obj''])\<rparr>],
      materials = [], thumbnails = [Path ''/'' [''w'', ''a'', ''t.png'']], extra_files = []\<rparr>"

definition ex_record :: json where
  "ex_record =
     JObj [(''id'', JStr ''h''), (''type'', JStr ''hull''), (''displayName'', JStr ''h''),
           (''lods'', JList [JObj [(''level'', JInt 0),
                                   (''mesh'', JStr ''modules/hull/h/lod_0/m.obj''),
                                   (''collision'', JStr ''modules/hull/h/lod_0/c.obj'')]]),
           (''tags'', JList [JStr ''x'']),
           (''thumbnails'', JList [JStr ''modules/hull/h/thumbnails/t.png''])]"

text \<open>Two modules with a \<^verbatim>\<open>thumbnails\<close> field: a string, and a list beside the legacy field.\<close>

definition ex_thumbs_string :: pydict where
  "ex_thumbs_string =
     [(''id'', JStr ''h''), (''type'', JStr ''hull''),
      (''lods'', JList [JObj [(''level'', JInt 0), (''mesh'', JStr ''m.obj'')]]),
      (''thumbnails'', JStr ''zz''), (''thumbnail'', JStr ''t.png'')]"

definition ex_thumbs_both :: pydict where
  "ex_thumbs_both =
     [(''id'', JStr ''h''), (''type'', JStr ''hull''),
      (''lods'', JList [JObj [(''level'', JInt 0), (''mesh'', JStr ''m.obj'')]]),
      (''thumbnails'', JList [JStr ''u.png'']), (''thumbnail'', JStr ''t.png'')]"

text \<open>
  A wing module whose mesh does not exist, a manifest holding the valid module and the broken
  one, a manifest holding the valid module alone, and the file system a real run leaves once
  the valid module is copied below the output directory \<^verbatim>\<open>o\<close>.
\<close>

definition ex_broken :: json where
  "ex_broken =
     JObj [(''id'', JStr ''b''), (''type'', JStr ''wing''),
           (''lods'', JList [JObj [(''level'', JInt 0), (''mesh'', JStr ''x.obj'')]])]"

definition ex_manifest_mixed :: pydict where
  "ex_manifest_mixed = [(''version'', JInt 1), (''modules'', JList [ex_module, ex_broken])]"

definition ex_manifest_ok :: pydict where
  "ex_manifest_ok = [(''version'', JInt 1), (''modules'', JList [ex_module])]"

definition ex_compiled :: pydict where
  "ex_compiled = [(''version'', JInt 1), (''generated'', JBool True), (''modules'', JList [ex_record])]"

definition ex_fs_copied :: filesystem where
  "ex_fs_copied =
     \<lparr>cwd = [''w''],
      nodes =
        [([''w'', ''o'', ''modules'', ''hull'', ''h'', ''thumbnails'', ''t.png''], File (Blob ''T'')),
         ([''w'', ''o'', ''modules'', ''hull'', ''h'', ''thumbnails''], Dir),
         ([''w'', ''o'', ''modules'', ''hull'', ''h'', ''lod_0'', ''c.obj''], File (Blob ''C'')),
         ([''w'', ''o'', ''modules'', ''hull'', ''h'', ''lod_0'', ''m.obj''], File (Blob ''M'')),
         ([''w'', ''o'', ''modules'', ''hull'', ''h'', ''lod_0''], Dir),
         ([''w'', ''o'', ''modules'', ''hull'', ''h''], Dir),
         ([''w'', ''o'', ''modules'', ''hull''], Dir),
         ([''w'', ''o'', ''modules''], Dir), ([''w'', ''o''], Dir)] @ nodes ex_fs\<rparr>"

definition ex_fs_built :: filesystem where
  "ex_fs_built =
     put_node ex_fs_copied [''w'', ''o'', ''ship_art_manifest.compiled.json'']
       (File (JsonText (JObj ex_compiled)))"

text \<open>
  Two modules with the same id and type whose meshes are different files of the same name:
  the example tree with a second mesh \<^verbatim>\<open>a/v/m.obj\<close>, the second module, the manifest of both,
  and the compiled document.
\<close>

definition ex_fs_twin :: filesystem where
  "ex_fs_twin =
     put_node (put_node ex_fs [''w'', ''a'', ''v''] Dir) [''w'', ''a'', ''v'', ''m.obj'']
       (File (Blob ''V''))"

definition ex_twin :: json where
  "ex_twin =
     JObj [(''id'', JStr ''h''), (''type'', JStr ''hull''),
           (''lods'', JList [JObj [(''level'', JInt 0), (''mesh'', JStr ''v/m.obj'')]])]"

definition ex_manifest_twins :: pydict where
  "ex_manifest_twins = [(''version'', JInt 1), (''modules'', JList [ex_module, ex_twin])]"

definition ex_twin_record :: json where
  "ex_twin_record =
     JObj [(''id'', JStr ''h''), (''type'', JStr ''hull''), (''displayName'', JStr ''h''),
           (''lods'', JList [JObj [(''level'', JInt 0),
                                   (''mesh'', JStr ''modules/hull/h/lod_0/m.obj'')]])]"

definition ex_compiled_twins :: pydict where
  "ex_compiled_twins =
     [(''version'', JInt 1), (''generated'', JBool True),
      (''modules'', JList [ex_record, ex_twin_record])]"

text \<open>A module whose two LOD entries both have level 0.\<close>

definition ex_dup_levels :: json where
  "ex_dup_levels =
     JObj [(''id'', JStr ''h''), (''type'', JStr ''hull''),
           (''lods'', JList [JObj [(''level'', JInt 0), (''mesh'', JStr ''m.obj'')],
                             JObj [(''level'', JInt 0), (''mesh'', JStr ''c.obj'')]])]"

text \<open>A module whose id starts with a slash, what \<^verbatim>\<open>parse_module\<close> returns for it, and its
  record.\<close>

definition ex_abs_id :: json where
  "ex_abs_id =
     JObj [(''id'', JStr ''/x''), (''type'', JStr ''hull''),
           (''lods'', JList [JObj [(''level'', JInt 0), (''mesh'', JStr ''m.obj'')]])]"

definition ex_abs_asset :: module_asset where
  "ex_abs_asset =
     \<lparr>module_id = ''/x'', module_type = ''hull'', display_name = JStr ''/x'',
      source = [(''id'', JStr ''/x''), (''type'', JStr ''hull''),
                (''lods'', JList [JObj [(''level'', JInt 0), (''mesh'', JStr ''m.obj'')]])],
      lods = [\<lparr>level = PInt 0, mesh = Path ''/'' [''w'', ''a'', ''m.obj''], collision = None\<rparr>],
      materials = [], thumbnails = [], extra_files = []\<rparr>"

definition ex_abs_record :: json where
  "ex_abs_record =
     JObj [(''id'', JStr ''/x''), (''type'', JStr ''hull''), (''displayName'', JStr ''/x''),
           (''lods'', JList [JObj [(''level'', JInt 0), (''mesh'', JStr ''/x/lod_0/m.obj'')]])]"

text \<open>
  A module whose type is a list, which cannot be looked up in the set of module types, and a
  manifest in which it follows the broken module.
\<close>

definition ex_crash :: json where
  "ex_crash = JObj [(''id'', JStr ''c''), (''type'', JList [])]"

definition ex_manifest_crash :: pydict where
  "ex_manifest_crash = [(''version'', JInt 1), (''modules'', JList [ex_broken, ex_crash])]"

text \<open>
  Two more modules with level 0 twice: one whose first mesh does not exist, one whose type
  is a list.
\<close>

definition ex_dup_missing :: json where
  "ex_dup_missing =
     JObj [(''id'', JStr ''h''), (''type'', JStr ''hull''),
           (''lods'', JList [JObj [(''level'', JInt 0), (''mesh'', JStr ''x.obj'')],
                             JObj [(''level'', JInt 0), (''mesh'', JStr ''c.obj'')]])]"

definition ex_dup_untyped :: json where
  "ex_dup_untyped =
     JObj [(''id'', JStr ''h''), (''type'', JList [JStr ''hull'']),
           (''lods'', JList [JObj [(''level'', JInt 0), (''mesh'', JStr ''m.obj'')],
                             JObj [(''level'', JInt 0), (''mesh'', JStr ''c.obj'')]])]"

text \<open>A module whose \<^verbatim>\<open>thumbnails\<close> field is an object, beside the legacy field.\<close>

definition ex_thumbs_object :: pydict where
  "ex_thumbs_object =
     [(''id'', JStr ''h''), (''type'', JStr ''hull''),
      (''lods'', JList [JObj [(''level'', JInt 0), (''mesh'', JStr ''m.obj'')]]),
      (''thumbnails'', JObj [(''front'', JStr ''zz'')]), (''thumbnail'', JStr ''t.png'')]"

section \<open>Evaluation rules\<close>

lemmas path_eval = path_of_str_def anchor_of_str_def resolve_def normalize_def pjoin_def
  path_exists_def py_stat_def locate_def node_at_def is_relative_to_def bad_path_def
  bad_name_def path_str_def NAME_MAX_def PATH_MAX_def

section \<open>Auxiliary facts\<close>

lemmas dict_eval = dict_get_def dict_get_default_def

lemmas parse_eval = parse_module_def parse_module_body_def parse_thumbnails_def
  parse_path_list_def ensure_relative_path_def MODULE_TYPES_def

lemmas bundle_eval = bundle_module_def module_target_of_def lod_files_def lod_subdir_def
  lod_record_def sanitize_def optional_keys_def copy_key_def set_if_nonempty_def pname_def
  rel_target_of_def str_int_def

lemmas write_eval = copy_into_bundle.simps copy_lods.simps copy_to_dest_def mkdir_parents_def
  copy2_def put_node_def pparent_def is_dir_def same_file_def

lemma str_nat_digit: "n < 10 \<Longrightarrow> str_nat n = [digit_char n]"
  by (simp add: str_nat.simps)

lemma parse_module_InrD:
  assumes "parse_module fs defn assets_dir = Inr m"
  obtains d mid mtype where "defn = JObj d" and "dict_get d ''id'' = JStr mid" and "mid \<noteq> []"
    and "dict_get d ''type'' = JStr mtype" and "mtype \<in> MODULE_TYPES"
    and "parse_module_body fs assets_dir d mid mtype = Inr m"
  using assms
  by (auto simp: parse_module_def split: json.splits if_splits option.splits bool.splits)

lemma parse_module_body_InrD:
  assumes "parse_module_body fs assets_dir d mid mtype = Inr m"
  obtains lod_raw where "dict_get d ''lods'' = JList lod_raw" and "lod_raw \<noteq> []"
    and "parse_lods fs assets_dir mid 0 {} lod_raw = Inr (lods m)"
    and "parse_path_list fs assets_dir mid d ''materials'' = Inr (materials m)"
    and "parse_thumbnails fs assets_dir mid d = Inr (thumbnails m)"
    and "parse_path_list fs assets_dir mid d ''extraFiles'' = Inr (extra_files m)"
    and "module_id m = mid" and "module_type m = mtype" and "source m = d"
    and "display_name m = dict_get_default d ''displayName'' (JStr mid)"
  using assms
  by (auto simp: parse_module_body_def split: json.splits if_splits sum.splits)









lemma ex_parse: "parse_module ex_fs ex_module ex_assets = Inr ex_asset"
  by (simp add: ex_module_def ex_asset_def ex_fs_def ex_assets_def parse_eval dict_eval path_eval)

lemma ex_bundle_dry: "bundle_module ex_fs ex_asset ex_out True = (ex_fs, Inr ex_record)"
  by (simp add: ex_asset_def ex_record_def ex_out_def bundle_eval path_eval str_nat_digit
      digit_char_def)

subsection \<open>What the copy steps report\<close>

lemma copy_into_bundle_strings:
  "copy_into_bundle fs files bundle_root sub dry = (fs', Inr copied) \<Longrightarrow>
     copied = dest_strings sub files"
  by (induction files arbitrary: fs copied)
     (auto simp: Let_def dest_strings_def split: prod.splits sum.splits if_splits)

lemma copy_into_bundle_dry:
  "copy_into_bundle fs files bundle_root sub True = (fs, Inr (dest_strings sub files))"
  by (induction files) (auto simp: Let_def dest_strings_def)

lemma copy_lods_records:
  "copy_lods fs ls output_dir mt dry = (fs', Inr outs) \<Longrightarrow>
     outs = map (\<lambda>lod. lod_record lod (dest_strings (lod_subdir mt lod) (lod_files lod))) ls"
  by (induction ls arbitrary: fs outs)
     (auto split: prod.splits sum.splits dest: copy_into_bundle_strings)

lemma copy_lods_dry:
  "copy_lods fs ls output_dir mt True =
     (fs, Inr (map (\<lambda>lod. lod_record lod (dest_strings (lod_subdir mt lod) (lod_files lod))) ls))"
  by (induction ls) (auto simp: copy_into_bundle_dry)

lemma bundle_module_record:
  "bundle_module fs m output_dir dry = (fs', Inr r) \<Longrightarrow> r = record_of m"
  by (auto simp: bundle_module_def record_of_def Let_def split: prod.splits sum.splits
      dest!: copy_into_bundle_strings copy_lods_records)

lemma bundle_module_dry: "bundle_module fs m output_dir True = (fs, Inr (record_of m))"
  by (simp add: bundle_module_def record_of_def Let_def copy_lods_dry copy_into_bundle_dry)

subsection \<open>Writing only adds nodes\<close>

lemma extends_refl: "extends fs fs"
  by (simp add: extends_def)

lemma extends_trans: "extends a b \<Longrightarrow> extends b c \<Longrightarrow> extends a c"
  unfolding extends_def by (metis)

lemma node_at_put_node:
  "node_at (put_node fs p n) q = (if q = [] then Some Dir else if q = p then Some n else node_at fs q)"
  by (simp add: node_at_def put_node_def)

lemma extends_put_missing: "node_at fs p = None \<Longrightarrow> extends fs (put_node fs p n)"
  by (auto simp: extends_def node_at_put_node) (simp_all add: node_at_def put_node_def)

lemma extends_put_file:
  "node_at fs p \<noteq> Some Dir \<Longrightarrow> extends fs (put_node fs p (File c))"
  by (auto simp: extends_def node_at_put_node) (auto simp add: node_at_def put_node_def split: if_splits)

lemma mkdir_walk_extends: "mkdir_walk fs cur cs = (fs', r) \<Longrightarrow> extends fs fs'"
proof (induction fs cur cs arbitrary: fs' r rule: mkdir_walk.induct)
  case (1 fs cur)
  then show ?case by (simp add: extends_refl)
next
  case (2 fs cur c cs)
  show ?case
  proof (cases "c = ''..''")
    case True
    with 2 show ?thesis by simp
  next
    case False
    note not_up = this
    show ?thesis
    proof (cases "NAME_MAX < length c")
      case True
      with not_up 2 show ?thesis by (simp add: extends_refl)
    next
      case False
      show ?thesis
      proof (cases "node_at fs (cur @ [c])")
        case None
        with not_up False 2 have "extends (put_node fs (cur @ [c]) Dir) fs'" by simp
        with None show ?thesis using extends_put_missing extends_trans by blast
      next
        case (Some n)
        with not_up False 2 show ?thesis by (cases n) (auto simp: extends_refl)
      qed
    qed
  qed
qed

lemma mkdir_parents_extends: "mkdir_parents fs p = (fs', r) \<Longrightarrow> extends fs fs'"
  by (auto simp: mkdir_parents_def extends_refl split: if_splits dest: mkdir_walk_extends)

lemma copy2_extends: "copy2 fs src dst = (fs', r) \<Longrightarrow> extends fs fs'"
  by (auto simp: copy2_def Let_def extends_refl
      split: if_splits sum.splits node.splits option.splits intro!: extends_put_file)

lemma copy_to_dest_extends:
  assumes "copy_to_dest fs src dest = (fs', r)"
  shows "extends fs fs'"
proof -
  obtain fs1 r1 where m: "mkdir_parents fs (pparent dest) = (fs1, r1)"
    by (cases "mkdir_parents fs (pparent dest)")
  then have e: "extends fs fs1" by (rule mkdir_parents_extends)
  show ?thesis
  proof (cases r1)
    case (Inl x)
    with assms m e show ?thesis by (simp add: copy_to_dest_def)
  next
    case (Inr dir)
    with assms m have "copy2 fs1 src dest = (fs', r)" by (simp add: copy_to_dest_def)
    then have "extends fs1 fs'" by (rule copy2_extends)
    with e show ?thesis by (rule extends_trans)
  qed
qed

lemma copy_into_bundle_extends:
  "copy_into_bundle fs files bundle_root sub dry = (fs', r) \<Longrightarrow> extends fs fs'"
proof (induction files arbitrary: fs r)
  case Nil
  then show ?case by (simp add: extends_refl)
next
  case (Cons src rest)
  then show ?case
    by (auto simp: Let_def extends_refl split: prod.splits sum.splits if_splits
        dest: copy_to_dest_extends intro: extends_trans)
qed

lemma copy_lods_extends:
  "copy_lods fs ls output_dir mt dry = (fs', r) \<Longrightarrow> extends fs fs'"
proof (induction ls arbitrary: fs r)
  case Nil
  then show ?case by (simp add: extends_refl)
next
  case (Cons lod rest)
  then show ?case
    by (auto split: prod.splits sum.splits dest: copy_into_bundle_extends intro: extends_trans)
qed

lemma bundle_module_extends:
  "bundle_module fs m output_dir dry = (fs', r) \<Longrightarrow> extends fs fs'"
  by (auto simp: bundle_module_def Let_def split: prod.splits sum.splits
      dest!: copy_into_bundle_extends copy_lods_extends intro: extends_trans)


subsection \<open>Validation survives writes\<close>

lemma extends_cwd: "extends fs fs' \<Longrightarrow> cwd fs' = cwd fs"
  by (simp add: extends_def)

lemma extends_resolve: "extends fs fs' \<Longrightarrow> resolve fs' p = resolve fs p"
  by (simp add: resolve_def normalize_def extends_cwd)

lemma extends_dir: "extends fs fs' \<Longrightarrow> node_at fs p = Some Dir \<Longrightarrow> node_at fs' p = Some Dir"
  unfolding extends_def by fastforce

lemma walk_ro_extends:
  "extends fs fs' \<Longrightarrow> walk_ro fs cur cs = Inr loc \<Longrightarrow> walk_ro fs' cur cs = Inr loc"
proof (induction cs arbitrary: cur)
  case Nil
  then show ?case by simp
next
  case (Cons c cs)
  from Cons.prems(2) have d: "node_at fs cur = Some Dir"
    by (auto split: option.splits node.splits)
  with Cons.prems(1) have d': "node_at fs' cur = Some Dir" by (rule extends_dir)
  from Cons.prems(2) d Cons.IH [OF Cons.prems(1)] show ?case
    by (auto simp: d' split: if_splits)
qed

lemma locate_extends: "extends fs fs' \<Longrightarrow> locate fs p = Inr loc \<Longrightarrow> locate fs' p = Inr loc"
  by (auto simp: locate_def extends_cwd split: if_splits sum.splits dest: walk_ro_extends)

lemma extends_exists:
  assumes "extends fs fs'" "path_exists fs p = Inr True"
  shows "path_exists fs' p = Inr True"
proof -
  from assms(2) obtain loc n where l: "locate fs p = Inr loc" and n: "node_at fs loc = Some n"
    by (auto simp: path_exists_def py_stat_def
        split: sum.splits option.splits error.splits os_error.splits)
  from assms(1) n obtain n' where "node_at fs' loc = Some n'"
    unfolding extends_def by blast
  with locate_extends [OF assms(1) l] show ?thesis
    by (simp add: path_exists_def py_stat_def)
qed

lemma ensure_relative_path_extends:
  "extends fs fs' \<Longrightarrow> ensure_relative_path fs base_dir x fld mid = Inr p \<Longrightarrow>
     ensure_relative_path fs' base_dir x fld mid = Inr p"
  by (auto simp: ensure_relative_path_def Let_def extends_resolve extends_exists
      split: json.splits if_splits sum.splits bool.splits)

lemma ensure_all_extends:
  "extends fs fs' \<Longrightarrow> ensure_all fs base_dir fld mid xs = Inr ps \<Longrightarrow>
     ensure_all fs' base_dir fld mid xs = Inr ps"
  by (induction xs arbitrary: ps)
     (auto split: sum.splits dest: ensure_relative_path_extends)

lemma parse_lods_extends:
  "extends fs fs' \<Longrightarrow> parse_lods fs base_dir mid idx seen ls = Inr es \<Longrightarrow>
     parse_lods fs' base_dir mid idx seen ls = Inr es"
proof (induction ls arbitrary: idx seen es)
  case Nil
  then show ?case by simp
next
  case (Cons lod rest)
  from Cons.prems(2) obtain d where d: "lod = JObj d"
    by (cases lod) auto
  from Cons.prems(2) d obtain lv where lv: "isinstance_int (dict_get d ''level'') = Some lv"
    "\<not> int_val lv < 0" "int_val lv \<notin> seen"
    by (auto split: option.splits if_splits)
  from Cons.prems(2) d lv obtain mp where
    mp: "ensure_relative_path fs base_dir (dict_get d ''mesh'') ''mesh'' mid = Inr mp"
    by (auto split: sum.splits)
  from Cons.prems(2) d lv mp obtain cp where
    cp: "(if truthy (dict_get d ''collision'')
          then (case ensure_relative_path fs base_dir (dict_get d ''collision'') ''collision'' mid of
                  Inl e \<Rightarrow> Inl e | Inr p \<Rightarrow> Inr (Some p))
          else Inr None) = Inr cp"
    by (auto split: sum.splits)
  from Cons.prems(2) d lv mp cp obtain rest_es where
    r: "parse_lods fs base_dir mid (Suc idx) (insert (int_val lv) seen) rest = Inr rest_es"
    and es: "es = \<lparr>level = lv, mesh = mp, collision = cp\<rparr> # rest_es"
    by (auto split: sum.splits)
  have mp': "ensure_relative_path fs' base_dir (dict_get d ''mesh'') ''mesh'' mid = Inr mp"
    using Cons.prems(1) mp by (rule ensure_relative_path_extends)
  have cp': "(if truthy (dict_get d ''collision'')
          then (case ensure_relative_path fs' base_dir (dict_get d ''collision'') ''collision'' mid of
                  Inl e \<Rightarrow> Inl e | Inr p \<Rightarrow> Inr (Some p))
          else Inr None) = Inr cp"
    using cp Cons.prems(1)
    by (auto split: if_splits sum.splits dest: ensure_relative_path_extends)
  have r': "parse_lods fs' base_dir mid (Suc idx) (insert (int_val lv) seen) rest = Inr rest_es"
    using Cons.IH [OF Cons.prems(1) r] .
  show ?case
    using d lv mp' r' es by (simp add: cp')
qed

lemma parse_path_list_extends:
  "extends fs fs' \<Longrightarrow> parse_path_list fs base_dir mid d key = Inr ps \<Longrightarrow>
     parse_path_list fs' base_dir mid d key = Inr ps"
  by (auto simp: parse_path_list_def split: option.splits dest: ensure_all_extends)

lemma parse_thumbnails_extends:
  "extends fs fs' \<Longrightarrow> parse_thumbnails fs base_dir mid d = Inr ps \<Longrightarrow>
     parse_thumbnails fs' base_dir mid d = Inr ps"
  by (auto simp: parse_thumbnails_def split: json.splits sum.splits
      dest: ensure_all_extends ensure_relative_path_extends)

lemma parse_module_body_extends:
  "extends fs fs' \<Longrightarrow> parse_module_body fs base_dir d mid mtype = Inr m \<Longrightarrow>
     parse_module_body fs' base_dir d mid mtype = Inr m"
  by (auto simp: parse_module_body_def split: json.splits if_splits sum.splits
      dest: parse_lods_extends parse_path_list_extends parse_thumbnails_extends)

lemma parse_module_extends:
  "extends fs fs' \<Longrightarrow> parse_module fs defn base_dir = Inr m \<Longrightarrow>
     parse_module fs' defn base_dir = Inr m"
  by (auto simp: parse_module_def split: json.splits if_splits option.splits bool.splits
      dest: parse_module_body_extends)

subsection \<open>Which exceptions each step can raise\<close>

lemma os_failure_simps [simp]:
  "os_failure (OSError x)" "os_failure ValueError" "\<not> os_failure TypeError"
  "\<not> os_failure (KeyError k)" "\<not> os_failure (ValidationError msg)"
  by (simp_all add: os_failure_def)

lemma mkdir_walk_error: "mkdir_walk fs cur cs = (fs', Inl e) \<Longrightarrow> os_failure e"
  by (induction fs cur cs arbitrary: fs' rule: mkdir_walk.induct)
     (auto split: if_splits option.splits node.splits)

lemma mkdir_parents_error: "mkdir_parents fs p = (fs', Inl e) \<Longrightarrow> os_failure e"
  by (auto simp: mkdir_parents_def split: if_splits dest: mkdir_walk_error)

lemma locate_error: "locate fs p = Inl e \<Longrightarrow> os_failure e"
  by (auto simp: locate_def split: if_splits sum.splits)

lemma py_stat_error: "py_stat fs p = Inl e \<Longrightarrow> os_failure e"
  by (auto simp: py_stat_def split: sum.splits option.splits dest: locate_error)

lemma copy2_error: "copy2 fs src dst = (fs', Inl e) \<Longrightarrow> os_failure e"
  by (auto simp: copy2_def Let_def split: if_splits sum.splits option.splits node.splits
      dest: py_stat_error locate_error)

lemma copy_to_dest_error: "copy_to_dest fs src dest = (fs', Inl e) \<Longrightarrow> os_failure e"
  by (auto simp: copy_to_dest_def split: prod.splits sum.splits
      dest: mkdir_parents_error copy2_error)

lemma copy_into_bundle_error:
  "copy_into_bundle fs files bundle_root sub dry = (fs', Inl e) \<Longrightarrow> \<not> dry \<and> os_failure e"
  by (induction files arbitrary: fs)
     (auto simp: Let_def split: prod.splits sum.splits if_splits dest: copy_to_dest_error)

lemma copy_lods_error:
  "copy_lods fs ls output_dir mt dry = (fs', Inl e) \<Longrightarrow> \<not> dry \<and> os_failure e"
  by (induction ls arbitrary: fs)
     (auto split: prod.splits sum.splits dest: copy_into_bundle_error)

lemma bundle_module_error:
  "bundle_module fs m output_dir dry = (fs', Inl e) \<Longrightarrow> \<not> dry \<and> os_failure e"
  by (auto simp: bundle_module_def Let_def split: prod.splits sum.splits
      dest: copy_into_bundle_error copy_lods_error)

lemma write_compiled_error:
  "write_compiled fs output_dir c = (fs', Inl e) \<Longrightarrow> os_failure e"
  by (auto simp: write_compiled_def split: prod.splits sum.splits option.splits node.splits
      dest: mkdir_parents_error locate_error)

subsection \<open>The module loop\<close>

lemma path_exists_error: "path_exists fs p = Inl e \<Longrightarrow> e = OSError NameTooLong"
proof -
  assume a: "path_exists fs p = Inl e"
  then obtain e' where s: "py_stat fs p = Inl e'"
    by (cases "py_stat fs p") (auto simp: path_exists_def)
  have "e' = ValueError \<or> e' = OSError NameTooLong \<or> e' = OSError FileNotFoundError \<or>
        e' = OSError NotADirectoryError"
  proof (cases "locate fs p")
    case (Inl x)
    with s have x: "x = e'" by (simp add: py_stat_def)
    have "walk_ro fs cur cs = Inl y \<Longrightarrow>
            y = NameTooLong \<or> y = FileNotFoundError \<or> y = NotADirectoryError" for cur cs y
      by (induction cs arbitrary: cur) (auto split: option.splits node.splits if_splits)
    with Inl x show ?thesis
      by (auto simp: locate_def split: if_splits sum.splits)
  next
    case (Inr loc)
    with s show ?thesis by (auto simp: py_stat_def split: option.splits)
  qed
  with a s show ?thesis by (auto simp: path_exists_def)
qed

lemma ensure_relative_path_error:
  "ensure_relative_path fs base_dir x fld mid = Inl e \<Longrightarrow>
     (\<exists>msg. e = ValidationError msg) \<or> os_failure e"
  by (auto simp: ensure_relative_path_def Let_def resolve_def
      split: json.splits if_splits sum.splits bool.splits dest: path_exists_error)

lemma ensure_all_error:
  "ensure_all fs base_dir fld mid xs = Inl e \<Longrightarrow> (\<exists>msg. e = ValidationError msg) \<or> os_failure e"
  by (induction xs) (auto split: sum.splits dest: ensure_relative_path_error)

lemma parse_lods_error:
  "parse_lods fs base_dir mid idx seen ls = Inl e \<Longrightarrow>
     (\<exists>msg. e = ValidationError msg) \<or> os_failure e"
  by (induction ls arbitrary: idx seen)
     (auto split: json.splits option.splits if_splits sum.splits dest: ensure_relative_path_error)

lemma build_modules_step_error:
  "parse_module fs d a = Inl (ValidationError msg) \<Longrightarrow>
     build_modules fs a out dry outs errs (d # ds) =
     build_modules fs a out dry outs (errs @ [msg]) ds"
  by simp

lemma build_modules_step_crash:
  "parse_module fs d a = Inl e \<Longrightarrow> \<forall>msg. e \<noteq> ValidationError msg \<Longrightarrow>
     build_modules fs a out dry outs errs (d # ds) = (fs, Inl e)"
  by (cases e) simp_all

lemma build_modules_step_ok:
  "parse_module fs d a = Inr m \<Longrightarrow>
     build_modules fs a out dry outs errs (d # ds) =
       (case bundle_module fs m out dry of
          (fs1, Inl e) \<Rightarrow> (fs1, Inl e)
        | (fs1, Inr r) \<Rightarrow> build_modules fs1 a out dry (outs @ [r]) errs ds)"
  by simp

lemma parse_module_cases:
  obtains (fail) msg where "parse_module fs d a = Inl (ValidationError msg)"
  | (crash) e where "parse_module fs d a = Inl e" "\<forall>msg. e \<noteq> ValidationError msg"
  | (ok) m where "parse_module fs d a = Inr m"
proof (cases "parse_module fs d a")
  case (Inl e)
  then show ?thesis by (cases e) (auto intro: fail crash)
next
  case (Inr m)
  then show ?thesis by (rule ok)
qed

lemma build_modules_accounts:
  "build_modules fs a out dry outs errs ds = (fs', Inr (outs', errs')) \<Longrightarrow>
     \<exists>new_outs new_errs. outs' = outs @ new_outs \<and> errs' = errs @ new_errs \<and>
        length new_outs + length new_errs = length ds"
proof (induction ds arbitrary: fs outs errs)
  case Nil
  then show ?case by simp
next
  case (Cons d ds)
  show ?case
  proof (cases rule: parse_module_cases [of fs d a])
    case (fail msg)
    with Cons.prems have "build_modules fs a out dry outs (errs @ [msg]) ds = (fs', Inr (outs', errs'))"
      by simp
    from Cons.IH [OF this] show ?thesis by auto
  next
    case (crash e)
    with Cons.prems show ?thesis by (simp add: build_modules_step_crash del: build_modules.simps)
  next
    case (ok m)
    with Cons.prems obtain fs1 r where
      "build_modules fs1 a out dry (outs @ [r]) errs ds = (fs', Inr (outs', errs'))"
      by (auto split: prod.splits sum.splits)
    from Cons.IH [OF this] show ?thesis by auto
  qed
qed

lemma build_modules_extends:
  "build_modules fs a out dry outs errs ds = (fs', r) \<Longrightarrow> extends fs fs'"
proof (induction ds arbitrary: fs outs errs)
  case Nil
  then show ?case by (simp add: extends_refl)
next
  case (Cons d ds)
  show ?case
  proof (cases rule: parse_module_cases [of fs d a])
    case (fail msg)
    with Cons show ?thesis by simp
  next
    case (crash e)
    with Cons.prems show ?thesis
      by (simp add: build_modules_step_crash extends_refl del: build_modules.simps)
  next
    case (ok m)
    obtain fs1 r1 where b: "bundle_module fs m out dry = (fs1, r1)"
      by (cases "bundle_module fs m out dry")
    then have e: "extends fs fs1" by (rule bundle_module_extends)
    show ?thesis
    proof (cases r1)
      case (Inl e1)
      with ok b Cons.prems e show ?thesis by simp
    next
      case (Inr rec)
      with ok b Cons.prems have "build_modules fs1 a out dry (outs @ [rec]) errs ds = (fs', r)"
        by simp
      from Cons.IH [OF this] e show ?thesis by (rule extends_trans [rotated])
    qed
  qed
qed

lemma build_modules_dry_fs:
  "build_modules fs a out True outs errs ds = (fs', r) \<Longrightarrow> fs' = fs"
proof (induction ds arbitrary: outs errs)
  case Nil
  then show ?case by simp
next
  case (Cons d ds)
  show ?case
  proof (cases rule: parse_module_cases [of fs d a])
    case (fail msg)
    with Cons show ?thesis by simp
  next
    case (crash e)
    with Cons.prems show ?thesis
      by (simp add: build_modules_step_crash del: build_modules.simps)
  next
    case (ok m)
    with Cons show ?thesis by (simp add: bundle_module_dry)
  qed
qed

lemma build_modules_append:
  "build_modules fs a out dry outs errs (pre @ rest) =
     (case build_modules fs a out dry outs errs pre of
        (fs1, Inl e) \<Rightarrow> (fs1, Inl e)
      | (fs1, Inr (outs1, errs1)) \<Rightarrow> build_modules fs1 a out dry outs1 errs1 rest)"
proof (induction pre arbitrary: fs outs errs)
  case Nil
  then show ?case by simp
next
  case (Cons d pre)
  show ?case
  proof (cases rule: parse_module_cases [of fs d a])
    case (fail msg)
    then show ?thesis by (simp add: Cons)
  next
    case (crash e)
    then show ?thesis by (simp add: build_modules_step_crash del: build_modules.simps)
  next
    case (ok m)
    then show ?thesis
      by (cases "bundle_module fs m out dry") (auto simp: Cons split: sum.splits)
  qed
qed

text \<open>
  A run that collected no failure, run again (in either mode) from any file system that
  extends the one it left: every module validates to the same module, so the second run gives
  the same records unless a copy fails.
\<close>

lemma build_modules_rerun:
  assumes "build_modules fs a out dry1 outs [] ds = (fsA, Inr (outs', []))"
    and "extends fsA fsB"
    and "build_modules fsB a out dry2 outs [] ds = (fsC, r)"
  shows "r = Inr (outs', []) \<or> (\<exists>e. r = Inl e \<and> os_failure e)"
  using assms
proof (induction ds arbitrary: fs outs fsB)
  case Nil
  then show ?case by auto
next
  case (Cons d ds)
  show ?case
  proof (cases rule: parse_module_cases [of fs d a])
    case (fail msg)
    with Cons.prems(1)
    have "build_modules fs a out dry1 outs ([] @ [msg]) ds = (fsA, Inr (outs', []))"
      by simp
    from build_modules_accounts [OF this] show ?thesis by simp
  next
    case (crash e)
    with Cons.prems(1) show ?thesis
      by (simp add: build_modules_step_crash del: build_modules.simps)
  next
    case (ok m)
    obtain fs1 r1 where b1: "bundle_module fs m out dry1 = (fs1, r1)"
      by (cases "bundle_module fs m out dry1")
    with ok Cons.prems(1) obtain rec where r1: "r1 = Inr rec"
      by (cases r1) auto
    with b1 have rec: "rec = record_of m" by (auto dest: bundle_module_record)
    from ok b1 r1 rec Cons.prems(1)
    have first: "build_modules fs1 a out dry1 (outs @ [record_of m]) [] ds = (fsA, Inr (outs', []))"
      by simp
    have "extends fs fs1" using b1 by (rule bundle_module_extends)
    moreover have "extends fs1 fsA" using first by (rule build_modules_extends)
    ultimately have "extends fs fsB" using Cons.prems(2) by (blast intro: extends_trans)
    then have p2: "parse_module fsB d a = Inr m" using ok by (rule parse_module_extends)
    obtain fs4 r4 where b: "bundle_module fsB m out dry2 = (fs4, r4)"
      by (cases "bundle_module fsB m out dry2")
    show ?thesis
    proof (cases r4)
      case (Inl e)
      with b bundle_module_error have "os_failure e" by blast
      with Inl b p2 Cons.prems(3) show ?thesis by auto
    next
      case (Inr rec2)
      with b have rec2: "rec2 = record_of m" by (auto dest: bundle_module_record)
      have e4: "extends fsA fs4"
        using Cons.prems(2) bundle_module_extends [OF b] by (rule extends_trans)
      from Inr b p2 Cons.prems(3) rec2
      have "build_modules fs4 a out dry2 (outs @ [record_of m]) [] ds = (fsC, r)" by simp
      from Cons.IH [OF first e4 this] show ?thesis .
    qed
  qed
qed

text \<open>The module loop against \<open>run_all\<close>.\<close>

lemma run_all_length: "run_all fs a out dry ds = (fs', xs) \<Longrightarrow> length xs = length ds"
  by (induction ds arbitrary: fs xs) (auto split: prod.splits)

lemma build_modules_run_all:
  assumes "run_all fs a out dry ds = (fs', xs)" and "list_all (\<lambda>x. \<not> is_raised x) xs"
  shows "build_modules fs a out dry outs errs ds =
           (fs', Inr (outs @ records xs, errs @ failures xs))"
  using assms
proof (induction ds arbitrary: fs fs' xs outs errs)
  case Nil
  then show ?case by simp
next
  case (Cons d ds)
  obtain fs1 x where o: "module_outcome fs a out dry d = (fs1, x)"
    by (cases "module_outcome fs a out dry d")
  obtain fs2 rest where r: "run_all fs1 a out dry ds = (fs2, rest)"
    by (cases "run_all fs1 a out dry ds")
  from Cons.prems(1) o r have xs: "xs = x # rest" "fs' = fs2" by simp_all
  with Cons.prems(2) have nr: "\<not> is_raised x" "list_all (\<lambda>x. \<not> is_raised x) rest" by simp_all
  note ih = Cons.IH [OF r nr(2)]
  show ?case
  proof (cases rule: parse_module_cases [of fs d a])
    case (fail msg)
    with o have "fs1 = fs" "x = Failed msg" by (simp_all add: module_outcome_def)
    with fail ih xs show ?thesis by simp
  next
    case (crash e)
    with o have "x = Raised e" by (cases e) (auto simp: module_outcome_def)
    with nr(1) show ?thesis by simp
  next
    case (ok m)
    obtain fs3 r3 where b: "bundle_module fs m out dry = (fs3, r3)"
      by (cases "bundle_module fs m out dry")
    show ?thesis
    proof (cases r3)
      case (Inl e)
      with ok b o have "x = Raised e" by (simp add: module_outcome_def)
      with nr(1) show ?thesis by simp
    next
      case (Inr rec)
      with ok b o have "fs1 = fs3" "x = Bundled rec" by (simp_all add: module_outcome_def)
      with ok b Inr ih xs show ?thesis by simp
    qed
  qed
qed

lemma run_all_dry:
  "run_all fs a out True ds = (fs', xs) \<Longrightarrow>
     fs' = fs \<and> failures xs = concat (map (\<lambda>d. validation_failure (parse_module fs d a)) ds)"
proof (induction ds arbitrary: fs' xs)
  case Nil
  then show ?case by simp
next
  case (Cons d ds)
  obtain fs1 x where o: "module_outcome fs a out True d = (fs1, x)"
    by (cases "module_outcome fs a out True d")
  obtain fs2 rest where r: "run_all fs1 a out True ds = (fs2, rest)"
    by (cases "run_all fs1 a out True ds")
  from Cons.prems o r have xs: "xs = x # rest" "fs' = fs2" by simp_all
  show ?case
  proof (cases rule: parse_module_cases [of fs d a])
    case (fail msg)
    with o have "fs1 = fs" "x = Failed msg" by (simp_all add: module_outcome_def)
    with fail Cons.IH r xs show ?thesis by simp
  next
    case (crash e)
    with o have "fs1 = fs" "x = Raised e" by (cases e; simp add: module_outcome_def)+
    moreover from crash have "validation_failure (parse_module fs d a) = []"
      by (cases e) simp_all
    ultimately show ?thesis using Cons.IH r xs by simp
  next
    case (ok m)
    with o have "fs1 = fs" "x = Bundled (record_of m)"
      by (simp_all add: module_outcome_def bundle_module_dry)
    with ok Cons.IH r xs show ?thesis by simp
  qed
qed




section \<open>Path containment (C1)\<close>




section \<open>Top-level manifest checks (C6)\<close>

text \<open>
  C6. Once the manifest file is loaded, \<^verbatim>\<open>read_manifest\<close> makes three checks in this order:
  the root is an object, \<^verbatim>\<open>version\<close> equals 1, \<^verbatim>\<open>modules\<close> is a non-empty list. Each failure
  is one \<^verbatim>\<open>ValidationError\<close> whatever the module list holds, and \<^verbatim>\<open>main\<close> then stops with
  status 1 and that single message: the file system is untouched and no module is validated.
\<close>

theorem top_level_checks_abort:
  assumes "open_read fs (manifest_path_of a) = Inr (JsonText data)"
  shows "((\<forall>d. data \<noteq> JObj d) \<longrightarrow>
            read_manifest fs (manifest_path_of a) = Inl (ValidationError msg_root_object)) \<and>
         (\<forall>d. data = JObj d \<and> \<not> equals_one (dict_get d ''version'') \<longrightarrow>
            read_manifest fs (manifest_path_of a) = Inl (ValidationError msg_version)) \<and>
         (\<forall>d. data = JObj d \<and> equals_one (dict_get d ''version'') \<and>
              (\<forall>ms. dict_get d ''modules'' = JList ms \<longrightarrow> ms = []) \<longrightarrow>
            read_manifest fs (manifest_path_of a) = Inl (ValidationError msg_modules_array)) \<and>
         (\<forall>d ms. data = JObj d \<and> equals_one (dict_get d ''version'') \<and>
              dict_get d ''modules'' = JList ms \<and> ms \<noteq> [] \<longrightarrow>
            read_manifest fs (manifest_path_of a) = Inr d) \<and>
         (\<forall>msg. read_manifest fs (manifest_path_of a) = Inl (ValidationError msg) \<longrightarrow>
            main fs a = \<lparr>run_fs = fs, run_status = Inr 1, run_stdout = [],
                         run_stderr = [Lit ''error: '' # msg]\<rparr>)"
  using assms
  by (auto simp: read_manifest_def check_manifest_def main_def Let_def split: json.splits)

text \<open>
  A manifest of version 2 whose module list holds the number 5: the run stops on the version,
  and the malformed module entry is never reported.
\<close>

theorem top_level_checks_abort_witness:
  "open_read ex_fs_bad_version (manifest_path_of ex_args) = Inr (JsonText ex_bad_version) \<and>
   read_manifest ex_fs_bad_version (manifest_path_of ex_args) = Inl (ValidationError msg_version) \<and>
   main ex_fs_bad_version ex_args =
     \<lparr>run_fs = ex_fs_bad_version, run_status = Inr 1, run_stdout = [],
      run_stderr = [Lit ''error: '' # msg_version]\<rparr>"
proof -
  have o: "open_read ex_fs_bad_version (manifest_path_of ex_args) = Inr (JsonText ex_bad_version)"
    by (simp add: open_read_def manifest_path_of_def ex_args_def ex_fs_bad_version_def
        put_node_def ex_fs_def ex_assets_def path_eval)
  have v: "\<not> equals_one (dict_get [(''version'', JInt 2), (''modules'', JList [JInt 5])] ''version'')"
    by (simp add: dict_eval)
  from top_level_checks_abort [OF o] v show ?thesis
    using o by (simp add: ex_bad_version_def)
qed

section \<open>The sanitized module record (C8)\<close>



section \<open>The example runs\<close>

lemma ex_broken_parse:
  "parse_module ex_fs ex_broken ex_assets =
     Inl (ValidationError (msg_missing_file ''b'' ''mesh'' (Path [] [''x.obj''])))"
  by (simp add: ex_broken_def ex_fs_def ex_assets_def parse_eval dict_eval path_eval)

lemma ex_bundle_real: "bundle_module ex_fs ex_asset ex_out False = (ex_fs_copied, Inr ex_record)"
  by (simp add: ex_asset_def ex_record_def ex_out_def ex_fs_def ex_fs_copied_def bundle_eval
      path_eval write_eval str_nat_digit digit_char_def Let_def)

lemma ex_broken_parse_copied:
  "parse_module ex_fs_copied ex_broken ex_assets =
     Inl (ValidationError (msg_missing_file ''b'' ''mesh'' (Path [] [''x.obj''])))"
  by (simp add: ex_broken_def ex_fs_def ex_fs_copied_def ex_assets_def parse_eval dict_eval path_eval)

lemma ex_parse_copied: "parse_module ex_fs_copied ex_module ex_assets = Inr ex_asset"
  using ex_parse bundle_module_extends [OF ex_bundle_real] by (rule parse_module_extends [rotated])

section \<open>A failing build keeps its copies (C5)\<close>

text \<open>
  C5. In a real (non-dry) run, split the manifest at any point: \<open>fs1\<close> is the file system
  after the earlier modules, \<open>fs2\<close> the one after the remaining modules. When failures were
  collected, \<^verbatim>\<open>build_bundle\<close> raises the combined error and leaves exactly \<open>fs2\<close> behind:
  the compiled manifest is not written, nothing is rolled back, and every file present
  after the earlier modules (their copies among them) is still a file.
\<close>

theorem failed_build_keeps_copies:
  assumes "map_of manifest ''modules'' = Some (JList (pre @ rest))"
    and "build_modules fs a out False [] [] pre = (fs1, Inr (outs1, errs1))"
    and "build_modules fs1 a out False outs1 errs1 rest = (fs2, Inr (outs2, errs2))"
    and "errs2 \<noteq> []"
  shows "build_bundle fs a manifest out False =
           (fs2, Inl (ValidationError (msg_build_failed errs2))) \<and>
         (\<forall>p c. node_at fs1 p = Some (File c) \<longrightarrow> (\<exists>c'. node_at fs2 p = Some (File c')))"
proof
  have "build_modules fs a out False [] [] (pre @ rest) = (fs2, Inr (outs2, errs2))"
    using assms(2,3) by (simp add: build_modules_append)
  with assms(1,4) show "build_bundle fs a manifest out False =
           (fs2, Inl (ValidationError (msg_build_failed errs2)))"
    by (simp add: build_bundle_def)
  have "extends fs1 fs2" using assms(3) by (rule build_modules_extends)
  then show "\<forall>p c. node_at fs1 p = Some (File c) \<longrightarrow> (\<exists>c'. node_at fs2 p = Some (File c'))"
    unfolding extends_def by (metis node.exhaust)
qed

lemma ex_loop_first:
  "build_modules ex_fs ex_assets ex_out False [] [] [ex_module] = (ex_fs_copied, Inr ([ex_record], []))"
  by (simp add: ex_parse ex_bundle_real)

lemma ex_loop_second:
  "build_modules ex_fs_copied ex_assets ex_out False [ex_record] [] [ex_broken] =
     (ex_fs_copied, Inr ([ex_record], [msg_missing_file ''b'' ''mesh'' (Path [] [''x.obj''])]))"
  by (simp add: ex_broken_parse_copied)

text \<open>
  The valid module is copied, the broken one fails: the copied mesh is on disk afterwards
  and the compiled manifest is not.
\<close>

theorem failed_build_keeps_copies_witness:
  "build_bundle ex_fs ex_assets ex_manifest_mixed ex_out False =
     (ex_fs_copied,
      Inl (ValidationError
             (msg_build_failed [msg_missing_file ''b'' ''mesh'' (Path [] [''x.obj''])]))) \<and>
   node_at ex_fs [''w'', ''o'', ''modules'', ''hull'', ''h'', ''lod_0'', ''m.obj''] = None \<and>
   node_at ex_fs_copied [''w'', ''o'', ''modules'', ''hull'', ''h'', ''lod_0'', ''m.obj''] =
     Some (File (Blob ''M'')) \<and>
   node_at ex_fs_copied [''w'', ''o'', ''ship_art_manifest.compiled.json''] = None"
proof -
  have m: "map_of ex_manifest_mixed ''modules'' = Some (JList ([ex_module] @ [ex_broken]))"
    by (simp add: ex_manifest_mixed_def)
  have n: "[msg_missing_file ''b'' ''mesh'' (Path [] [''x.obj''])] \<noteq> []" by simp
  have f: "node_at ex_fs [''w'', ''o'', ''modules'', ''hull'', ''h'', ''lod_0'', ''m.obj''] = None"
    "node_at ex_fs_copied [''w'', ''o'', ''modules'', ''hull'', ''h'', ''lod_0'', ''m.obj''] =
       Some (File (Blob ''M''))"
    "node_at ex_fs_copied [''w'', ''o'', ''ship_art_manifest.compiled.json''] = None"
    by (simp_all add: node_at_def ex_fs_def ex_fs_copied_def)
  from failed_build_keeps_copies [OF m ex_loop_first ex_loop_second n] f show ?thesis by simp
qed

section \<open>Module ids are not checked for uniqueness (C9)\<close>

text \<open>
  C9. A manifest with two valid modules of the same id and the same type builds, in a dry run
  and in a real run: both modules are in the compiled manifest, and both meshes are given the
  same destination \<^verbatim>\<open>modules/hull/h/lod_0/m.obj\<close>. After the real run that file holds the
  second module's mesh.
\<close>

theorem duplicate_ids_are_bundled:
  "(\<exists>d1 d2. ex_module = JObj d1 \<and> ex_twin = JObj d2 \<and>
       dict_get d1 ''id'' = dict_get d2 ''id'' \<and> dict_get d1 ''type'' = dict_get d2 ''type'') \<and>
   build_bundle ex_fs_twin ex_assets ex_manifest_twins ex_out True =
     (ex_fs_twin, Inr ex_compiled_twins) \<and>
   (\<exists>fs'. build_bundle ex_fs_twin ex_assets ex_manifest_twins ex_out False =
            (fs', Inr ex_compiled_twins) \<and>
          node_at fs' [''w'', ''o'', ''modules'', ''hull'', ''h'', ''lod_0'', ''m.obj''] =
            Some (File (Blob ''V'')))"
  by (simp add: build_bundle_def ex_manifest_twins_def ex_compiled_twins_def ex_module_def
      ex_twin_def ex_record_def ex_twin_record_def ex_fs_twin_def ex_fs_def ex_assets_def
      ex_out_def parse_eval dict_eval path_eval bundle_eval write_eval str_nat_digit
      digit_char_def write_compiled_def compiled_name_def Let_def)

section \<open>Aggregation of module failures (C2)\<close>

lemma build_modules_raised:
  assumes "run_all fs a out dry ds = (fs', xs)" and "list_ex is_raised xs"
  shows "\<exists>fs'' e. build_modules fs a out dry outs errs ds = (fs'', Inl e) \<and>
           (\<forall>msg. e \<noteq> ValidationError msg)"
  using assms
proof (induction ds arbitrary: fs fs' xs outs errs)
  case Nil
  then show ?case by simp
next
  case (Cons d ds)
  obtain fs1 x where o: "module_outcome fs a out dry d = (fs1, x)"
    by (cases "module_outcome fs a out dry d")
  obtain fs2 rest where r: "run_all fs1 a out dry ds = (fs2, rest)"
    by (cases "run_all fs1 a out dry ds")
  from Cons.prems(1) o r have xs: "xs = x # rest" "fs' = fs2" by simp_all
  show ?case
  proof (cases rule: parse_module_cases [of fs d a])
    case (fail msg)
    with o have x: "fs1 = fs" "x = Failed msg" by (simp_all add: module_outcome_def)
    with xs Cons.prems(2) have "list_ex is_raised rest" by simp
    from Cons.IH [OF r this] fail x show ?thesis by simp
  next
    case (crash e)
    then show ?thesis by (auto simp: build_modules_step_crash simp del: build_modules.simps)
  next
    case (ok m)
    obtain fs3 r3 where b: "bundle_module fs m out dry = (fs3, r3)"
      by (cases "bundle_module fs m out dry")
    show ?thesis
    proof (cases r3)
      case (Inl e)
      with b bundle_module_error have "os_failure e" by blast
      then have "\<forall>msg. e \<noteq> ValidationError msg" by (auto simp: os_failure_def)
      with ok b Inl show ?thesis by simp
    next
      case (Inr rec)
      with ok b o have x: "fs1 = fs3" "x = Bundled rec" by (simp_all add: module_outcome_def)
      with xs Cons.prems(2) have "list_ex is_raised rest" by simp
      from Cons.IH [OF r this] ok b Inr x show ?thesis by simp
    qed
  qed
qed

text \<open>
  C2, as amended. \<open>run_all\<close> gives what becomes of every module of the manifest in turn.
  When no module raises an exception other than the \<^verbatim>\<open>ValidationError\<close> of its validation
  and at least one module fails validation, \<^verbatim>\<open>build_bundle\<close> raises one \<^verbatim>\<open>ValidationError\<close>
  after the last module: its message is the header with the number of failures followed by
  every failure message, in manifest order, one per line. In a dry run the failures are those
  of \<^verbatim>\<open>parse_module\<close> on the modules of the manifest. When some module raises another
  exception, \<^verbatim>\<open>build_bundle\<close> raises an exception that is not a \<^verbatim>\<open>ValidationError\<close>, and the
  failures collected so far are not reported.
\<close>

theorem failures_are_aggregated:
  assumes "map_of manifest ''modules'' = Some ms"
    and "py_iter ms = Some defs"
    and "run_all fs a out dry defs = (fs', xs)"
  shows "length xs = length defs \<and>
         (dry \<longrightarrow>
            failures xs = concat (map (\<lambda>d. validation_failure (parse_module fs d a)) defs)) \<and>
         (list_all (\<lambda>x. \<not> is_raised x) xs \<and> failures xs \<noteq> [] \<longrightarrow>
            build_bundle fs a manifest out dry =
              (fs', Inl (ValidationError
                          ([Lit ''Build failed with '', Lit (str_nat (length (failures xs))),
                            Lit '' error(s):'', nl] @ py_join [nl] (failures xs))))) \<and>
         (list_ex is_raised xs \<longrightarrow>
            (\<exists>fs'' e. build_bundle fs a manifest out dry = (fs'', Inl e) \<and>
                      (\<forall>msg. e \<noteq> ValidationError msg)))"
proof (intro conjI impI)
  show "length xs = length defs" using assms(3) by (rule run_all_length)
next
  assume dry
  with assms(3) run_all_dry [of fs a out defs fs' xs]
  show "failures xs = concat (map (\<lambda>d. validation_failure (parse_module fs d a)) defs)"
    by simp
next
  assume "list_all (\<lambda>x. \<not> is_raised x) xs \<and> failures xs \<noteq> []"
  then have nr: "list_all (\<lambda>x. \<not> is_raised x) xs" and ne: "failures xs \<noteq> []" by simp_all
  from build_modules_run_all [OF assms(3) nr, of "[]" "[]"] ne assms(1,2)
  show "build_bundle fs a manifest out dry =
      (fs', Inl (ValidationError
                  ([Lit ''Build failed with '', Lit (str_nat (length (failures xs))),
                    Lit '' error(s):'', nl] @ py_join [nl] (failures xs))))"
    by (simp add: build_bundle_def msg_build_failed_def)
next
  assume "list_ex is_raised xs"
  from build_modules_raised [OF assms(3) this, of "[]" "[]"] assms(1,2)
  show "\<exists>fs'' e. build_bundle fs a manifest out dry = (fs'', Inl e) \<and>
                      (\<forall>msg. e \<noteq> ValidationError msg)"
    by (auto simp: build_bundle_def)
qed

lemma ex_run_mixed:
  "run_all ex_fs ex_assets ex_out False [ex_module, ex_broken] =
     (ex_fs_copied,
      [Bundled ex_record, Failed (msg_missing_file ''b'' ''mesh'' (Path [] [''x.obj'']))])"
  by (simp add: module_outcome_def ex_parse ex_bundle_real ex_broken_parse_copied)

lemma ex_run_mixed_dry:
  "run_all ex_fs ex_assets ex_out True [ex_module, ex_broken] =
     (ex_fs,
      [Bundled ex_record, Failed (msg_missing_file ''b'' ''mesh'' (Path [] [''x.obj'']))])"
  by (simp add: module_outcome_def ex_parse ex_bundle_dry ex_broken_parse)

lemma ex_crash_parse: "parse_module ex_fs ex_crash ex_assets = Inl TypeError"
  by (simp add: ex_crash_def parse_eval dict_eval)

lemma ex_run_crash:
  "run_all ex_fs ex_assets ex_out True [ex_broken, ex_crash] =
     (ex_fs, [Failed (msg_missing_file ''b'' ''mesh'' (Path [] [''x.obj''])), Raised TypeError])"
  by (simp add: module_outcome_def ex_crash_parse ex_broken_parse)

text \<open>
  The valid module followed by the broken one, in a real run and in a dry run; and the broken
  module followed by the module whose type is a list.
\<close>

theorem failures_are_aggregated_witness:
  "build_bundle ex_fs ex_assets ex_manifest_mixed ex_out False =
     (ex_fs_copied,
      Inl (ValidationError
             [Lit ''Build failed with '', Lit ''1'', Lit '' error(s):'', nl,
              Lit ''Module '', sq, Lit ''b'', sq, Lit '' references missing file for '',
              Lit ''mesh'', Lit '': '', Lit ''x.obj''])) \<and>
   build_bundle ex_fs ex_assets ex_manifest_mixed ex_out True =
     (ex_fs,
      Inl (ValidationError
             [Lit ''Build failed with '', Lit ''1'', Lit '' error(s):'', nl,
              Lit ''Module '', sq, Lit ''b'', sq, Lit '' references missing file for '',
              Lit ''mesh'', Lit '': '', Lit ''x.obj''])) \<and>
   validation_failure (parse_module ex_fs ex_module ex_assets) = [] \<and>
   validation_failure (parse_module ex_fs ex_broken ex_assets) =
     [[Lit ''Module '', sq, Lit ''b'', sq, Lit '' references missing file for '',
       Lit ''mesh'', Lit '': '', Lit ''x.obj'']] \<and>
   (\<exists>fs'' e. build_bundle ex_fs ex_assets ex_manifest_crash ex_out True = (fs'', Inl e) \<and>
      e \<noteq> ValidationError
             [Lit ''Build failed with '', Lit ''1'', Lit '' error(s):'', nl,
              Lit ''Module '', sq, Lit ''b'', sq, Lit '' references missing file for '',
              Lit ''mesh'', Lit '': '', Lit ''x.obj''])"
proof -
  have m: "map_of ex_manifest_mixed ''modules'' = Some (JList [ex_module, ex_broken])"
    and c: "map_of ex_manifest_crash ''modules'' = Some (JList [ex_broken, ex_crash])"
    by (simp_all add: ex_manifest_mixed_def ex_manifest_crash_def)
  have i: "py_iter (JList [ex_module, ex_broken]) = Some [ex_module, ex_broken]"
    and j: "py_iter (JList [ex_broken, ex_crash]) = Some [ex_broken, ex_crash]"
    by simp_all
  have t: "msg_missing_file ''b'' ''mesh'' (Path [] [''x.obj'']) =
      [Lit ''Module '', sq, Lit ''b'', sq, Lit '' references missing file for '',
       Lit ''mesh'', Lit '': '', Lit ''x.obj'']"
    by (simp add: msg_missing_file_def path_str_def)
  from failures_are_aggregated [OF m i ex_run_mixed]
       failures_are_aggregated [OF m i ex_run_mixed_dry]
       failures_are_aggregated [OF c j ex_run_crash]
  show ?thesis
    by (simp add: t str_nat_digit digit_char_def ex_parse) blast
qed

text \<open>
  C2 as stated fails. The first module fails validation; the second has a list as its type,
  and the \<^verbatim>\<open>TypeError\<close> of the membership test leaves \<^verbatim>\<open>build_bundle\<close>: no combined
  \<^verbatim>\<open>ValidationError\<close> is raised and the failure of the first module is dropped.
\<close>

theorem later_crash_counterexample:
  "parse_module ex_fs ex_broken ex_assets =
     Inl (ValidationError (msg_missing_file ''b'' ''mesh'' (Path [] [''x.obj'']))) \<and>
   parse_module ex_fs ex_crash ex_assets = Inl TypeError \<and>
   build_bundle ex_fs ex_assets ex_manifest_crash ex_out True = (ex_fs, Inl TypeError) \<and>
   build_bundle ex_fs ex_assets ex_manifest_crash ex_out False = (ex_fs, Inl TypeError)"
  by (simp add: ex_broken_parse ex_crash_parse build_bundle_def ex_manifest_crash_def)

section \<open>LOD levels are unique per module only (C4)\<close>

lemma parse_lods_levels:
  "parse_lods fs a mid idx seen ls = Inr es \<Longrightarrow>
     map lod_level ls = map (\<lambda>e. Some (int_val (level e))) es \<and>
     distinct (map (\<lambda>e. int_val (level e)) es) \<and>
     (\<forall>e \<in> set es. int_val (level e) \<notin> seen)"
proof (induction ls arbitrary: idx seen es)
  case Nil
  then show ?case by simp
next
  case (Cons lod rest)
  from Cons.prems obtain d where d: "lod = JObj d"
    by (cases lod) auto
  from Cons.prems d obtain lv where lv: "isinstance_int (dict_get d ''level'') = Some lv"
    "int_val lv \<notin> seen"
    by (auto split: option.splits if_splits)
  from Cons.prems d lv obtain mp cp rest_es where
    r: "parse_lods fs a mid (Suc idx) (insert (int_val lv) seen) rest = Inr rest_es"
    and es: "es = \<lparr>level = lv, mesh = mp, collision = cp\<rparr> # rest_es"
    by (auto split: sum.splits if_splits)
  from Cons.IH [OF r] d lv es show ?case
    by (auto simp: lod_level_def)
qed

lemma parse_lods_duplicate:
  assumes "i < j" "j < length ls" "lod_level (ls ! i) = Some n" "lod_level (ls ! j) = Some n"
  shows "\<exists>e. parse_lods fs a mid idx seen ls = Inl e"
proof (cases "parse_lods fs a mid idx seen ls")
  case (Inl e)
  then show ?thesis by blast
next
  case (Inr es)
  from parse_lods_levels [OF Inr]
  have m: "map lod_level ls = map (\<lambda>e. Some (int_val (level e))) es"
    and di: "distinct (map (\<lambda>e. int_val (level e)) es)" by simp_all
  from m have len: "length es = length ls" by (metis length_map)
  from m assms len have "int_val (level (es ! i)) = n" "int_val (level (es ! j)) = n"
    by (metis (no_types, lifting) less_trans nth_map option.inject)+
  with di assms(1,2) len have False
    by (auto simp: distinct_conv_nth)
  then show ?thesis ..
qed

lemma parse_lods_append:
  "parse_lods fs a mid idx seen (pre @ rest) =
     (case parse_lods fs a mid idx seen pre of
        Inl e \<Rightarrow> Inl e
      | Inr es \<Rightarrow>
          (case parse_lods fs a mid (idx + length pre)
                  (seen \<union> (\<lambda>e. int_val (level e)) ` set es) rest of
             Inl e \<Rightarrow> Inl e
           | Inr es' \<Rightarrow> Inr (es @ es')))"
proof (induction pre arbitrary: idx seen)
  case Nil
  then show ?case by (simp split: sum.splits)
next
  case (Cons lod pre)
  show ?case
  proof (cases "parse_lods fs a mid idx seen [lod]")
    case (Inl e)
    then show ?thesis
      by (auto split: json.splits option.splits if_splits sum.splits)
  next
    case (Inr one)
    then obtain d lv mp cp where d: "lod = JObj d"
      "isinstance_int (dict_get d ''level'') = Some lv" "\<not> int_val lv < 0" "int_val lv \<notin> seen"
      "ensure_relative_path fs a (dict_get d ''mesh'') ''mesh'' mid = Inr mp"
      "(if truthy (dict_get d ''collision'')
          then (case ensure_relative_path fs a (dict_get d ''collision'') ''collision'' mid of
                  Inl e \<Rightarrow> Inl e | Inr p \<Rightarrow> Inr (Some p))
          else Inr None) = Inr cp"
      by (auto split: json.splits option.splits if_splits sum.splits)
    have u: "insert (int_val lv) seen \<union> X = seen \<union> insert (int_val lv) X" for X by auto
    show ?thesis
      using d(1-5) by (simp add: d(6) Cons.IH u split: sum.splits)
  qed
qed

lemma parse_lods_nonneg:
  "parse_lods fs a mid idx seen ls = Inr es \<Longrightarrow> e \<in> set es \<Longrightarrow> \<not> int_val (level e) < 0"
  by (induction ls arbitrary: idx seen es)
     (auto split: json.splits option.splits if_splits sum.splits)

lemma build_modules_all_valid_dry:
  "list_all2 (\<lambda>d m. parse_module fs d a = Inr m) ds ms \<Longrightarrow>
     build_modules fs a out True outs errs ds = (fs, Inr (outs @ map record_of ms, errs))"
  by (induction ds ms arbitrary: outs rule: list_all2_induct) (simp_all add: bundle_module_dry)

lemma build_modules_all_valid:
  assumes "list_all2 (\<lambda>d m. parse_module fs d a = Inr m) ds ms"
    and "extends fs fsB"
    and "build_modules fsB a out dry outs errs ds = (fsC, r)"
  shows "r = Inr (outs @ map record_of ms, errs) \<or> (\<exists>e. r = Inl e \<and> os_failure e)"
  using assms
proof (induction ds ms arbitrary: fsB outs rule: list_all2_induct)
  case Nil
  then show ?case by simp
next
  case (Cons d ds m ms)
  from Cons.prems(1) Cons.hyps(1) have p: "parse_module fsB d a = Inr m"
    by (rule parse_module_extends)
  obtain fs4 r4 where b: "bundle_module fsB m out dry = (fs4, r4)"
    by (cases "bundle_module fsB m out dry")
  show ?case
  proof (cases r4)
    case (Inl e)
    with b bundle_module_error have "os_failure e" by blast
    with Inl b p Cons.prems(2) show ?thesis by auto
  next
    case (Inr rec)
    with b have rec: "rec = record_of m" by (auto dest: bundle_module_record)
    have e4: "extends fs fs4"
      using Cons.prems(1) bundle_module_extends [OF b] by (rule extends_trans)
    from Inr b p Cons.prems(2) rec
    have "build_modules fs4 a out dry (outs @ [record_of m]) errs ds = (fsC, r)" by simp
    from Cons.IH [OF e4 this] show ?thesis by simp
  qed
qed

text \<open>
  C4, as amended. (1) A module definition in which two LOD entries have the same level
  never validates: \<^verbatim>\<open>parse_module\<close> raises. (2) When the identifier, the type and the LOD
  entries before the repeated one pass their checks, what it raises is the "reuses LOD
  level" \<^verbatim>\<open>ValidationError\<close>. (3) The set of seen levels is local to a module: modules that
  validate on their own all validate in one build, whatever levels they share. A dry run
  gives their records and no failure; so does a real run, unless a copy raises an
  operating-system error.
\<close>

theorem duplicate_lod_levels:
  "(\<forall>d ls i j n.
      defn = JObj d \<and> dict_get d ''lods'' = JList ls \<and> i < j \<and> j < length ls \<and>
      lod_level (ls ! i) = Some n \<and> lod_level (ls ! j) = Some n \<longrightarrow>
      (\<exists>e. parse_module fs defn a = Inl e)) \<and>
   (\<forall>d mid mtype pre dup post es lv.
      defn = JObj d \<and> dict_get d ''id'' = JStr mid \<and> mid \<noteq> [] \<and>
      dict_get d ''type'' = JStr mtype \<and> mtype \<in> MODULE_TYPES \<and>
      dict_get d ''lods'' = JList (pre @ JObj dup # post) \<and>
      parse_lods fs a mid 0 {} pre = Inr es \<and>
      isinstance_int (dict_get dup ''level'') = Some lv \<and>
      int_val lv \<in> (\<lambda>e. int_val (level e)) ` set es \<longrightarrow>
      parse_module fs defn a =
        Inl (ValidationError (msg_reuses_level mid (dict_get dup ''level'')))) \<and>
   (\<forall>ds ms.
      list_all2 (\<lambda>d m. parse_module fs d a = Inr m) ds ms \<longrightarrow>
      build_modules fs a out True [] [] ds = (fs, Inr (map record_of ms, [])) \<and>
      (\<exists>fs' r. build_modules fs a out False [] [] ds = (fs', r) \<and>
         (r = Inr (map record_of ms, []) \<or> (\<exists>e. r = Inl e \<and> os_failure e))))"
proof (intro conjI allI impI)
  fix d ls i j n
  assume h: "defn = JObj d \<and> dict_get d ''lods'' = JList ls \<and> i < j \<and> j < length ls \<and>
      lod_level (ls ! i) = Some n \<and> lod_level (ls ! j) = Some n"
  then have ne: "ls \<noteq> []" by auto
  from h have dup: "\<exists>e. parse_lods fs a mid 0 {} ls = Inl e" for mid
    by (intro parse_lods_duplicate [of i j ls n]) auto
  show "\<exists>e. parse_module fs defn a = Inl e"
  proof (cases "dict_get d ''id''")
    case (JStr mid)
    from dup [of mid] obtain e where
      "parse_lods fs a mid 0 {} ls = Inl e" by blast
    with h ne JStr show ?thesis
      by (auto simp: parse_module_def parse_module_body_def
          split: option.splits bool.splits json.splits)
  qed (use h in \<open>auto simp: parse_module_def\<close>)
next
  fix d mid mtype pre dup post es lv
  assume h: "defn = JObj d \<and> dict_get d ''id'' = JStr mid \<and> mid \<noteq> [] \<and>
      dict_get d ''type'' = JStr mtype \<and> mtype \<in> MODULE_TYPES \<and>
      dict_get d ''lods'' = JList (pre @ JObj dup # post) \<and>
      parse_lods fs a mid 0 {} pre = Inr es \<and>
      isinstance_int (dict_get dup ''level'') = Some lv \<and>
      int_val lv \<in> (\<lambda>e. int_val (level e)) ` set es"
  then have nn: "\<not> int_val lv < 0"
    by (auto dest: parse_lods_nonneg)
  from h nn have "parse_lods fs a mid 0 {} (pre @ JObj dup # post) =
        Inl (ValidationError (msg_reuses_level mid (dict_get dup ''level'')))"
    by (simp add: parse_lods_append)
  with h show "parse_module fs defn a =
        Inl (ValidationError (msg_reuses_level mid (dict_get dup ''level'')))"
    by (simp add: parse_module_def parse_module_body_def)
next
  fix ds ms
  assume v: "list_all2 (\<lambda>d m. parse_module fs d a = Inr m) ds ms"
  from build_modules_all_valid_dry [OF v, of out "[]" "[]"]
  show "build_modules fs a out True [] [] ds = (fs, Inr (map record_of ms, []))" by simp
  obtain fs' r where b: "build_modules fs a out False [] [] ds = (fs', r)"
    by (cases "build_modules fs a out False [] [] ds")
  from build_modules_all_valid [OF v extends_refl b] b
  show "\<exists>fs' r. build_modules fs a out False [] [] ds = (fs', r) \<and>
         (r = Inr (map record_of ms, []) \<or> (\<exists>e. r = Inl e \<and> os_failure e))"
    by auto
qed

lemma ex_twin_extends: "extends ex_fs ex_fs_twin"
proof -
  have "extends ex_fs (put_node ex_fs [''w'', ''a'', ''v''] Dir)"
    by (rule extends_put_missing) (simp add: node_at_def ex_fs_def)
  moreover have "extends (put_node ex_fs [''w'', ''a'', ''v''] Dir) ex_fs_twin"
    unfolding ex_fs_twin_def
    by (rule extends_put_missing) (simp add: node_at_def put_node_def ex_fs_def)
  ultimately show ?thesis by (rule extends_trans)
qed

lemma ex_parse_twin_fs: "parse_module ex_fs_twin ex_module ex_assets = Inr ex_asset"
  using ex_twin_extends ex_parse by (rule parse_module_extends)

text \<open>
  A module with level 0 twice is rejected for reusing the level; the two example modules of
  the twin manifest both use level 0 and build together.
\<close>

theorem duplicate_lod_levels_witness:
  "parse_module ex_fs ex_dup_levels ex_assets =
     Inl (ValidationError (msg_reuses_level ''h'' (JInt 0))) \<and>
   (\<exists>m1 m2. parse_module ex_fs_twin ex_module ex_assets = Inr m1 \<and>
        parse_module ex_fs_twin ex_twin ex_assets = Inr m2 \<and>
        map level (lods m1) = [PInt 0] \<and> map level (lods m2) = [PInt 0] \<and>
        build_modules ex_fs_twin ex_assets ex_out True [] [] [ex_module, ex_twin] =
          (ex_fs_twin, Inr ([record_of m1, record_of m2], [])))"
proof -
  let ?e1 = "JObj [(''level'', JInt 0), (''mesh'', JStr ''m.obj'')]"
  let ?dup = "[(''level'', JInt 0), (''mesh'', JStr ''c.obj'')]"
  let ?d = "[(''id'', JStr ''h''), (''type'', JStr ''hull''), (''lods'', JList [?e1, JObj ?dup])]"
  let ?es = "[\<lparr>level = PInt 0, mesh = Path ''/'' [''w'', ''a'', ''m.obj''], collision = None\<rparr>]"
  have a: "ex_dup_levels = JObj ?d" "dict_get ?d ''id'' = JStr ''h''" "''h'' \<noteq> []"
    "dict_get ?d ''type'' = JStr ''hull''" "''hull'' \<in> MODULE_TYPES"
    "dict_get ?d ''lods'' = JList ([?e1] @ JObj ?dup # [])"
    "isinstance_int (dict_get ?dup ''level'') = Some (PInt 0)"
    "int_val (PInt 0) \<in> (\<lambda>e. int_val (level e)) ` set ?es"
    by (simp_all add: ex_dup_levels_def dict_eval MODULE_TYPES_def)
  have b: "parse_lods ex_fs ex_assets ''h'' 0 {} [?e1] = Inr ?es"
    by (simp add: ex_fs_def ex_assets_def ensure_relative_path_def dict_eval path_eval)
  have "parse_module ex_fs ex_dup_levels ex_assets =
          Inl (ValidationError (msg_reuses_level ''h'' (dict_get ?dup ''level'')))"
    using duplicate_lod_levels [of ex_dup_levels ex_fs ex_assets] a b by blast
  then have first: "parse_module ex_fs ex_dup_levels ex_assets =
          Inl (ValidationError (msg_reuses_level ''h'' (JInt 0)))"
    by (simp add: dict_eval)
  obtain m2 where m2: "parse_module ex_fs_twin ex_twin ex_assets = Inr m2"
    "map level (lods m2) = [PInt 0]"
    by (simp add: ex_twin_def ex_fs_twin_def ex_fs_def put_node_def ex_assets_def parse_eval
        dict_eval path_eval)
  have m1: "map level (lods ex_asset) = [PInt 0]" by (simp add: ex_asset_def)
  have v: "list_all2 (\<lambda>d m. parse_module ex_fs_twin d ex_assets = Inr m)
             [ex_module, ex_twin] [ex_asset, m2]"
    using ex_parse_twin_fs m2(1) by simp
  have both: "build_modules ex_fs_twin ex_assets ex_out True [] [] [ex_module, ex_twin] =
          (ex_fs_twin, Inr ([record_of ex_asset, record_of m2], []))"
    using duplicate_lod_levels [of JNull ex_fs_twin ex_assets ex_out, THEN conjunct2,
        THEN conjunct2, rule_format, OF v, THEN conjunct1]
    by simp
  show ?thesis
    by (intro conjI exI [of _ ex_asset] exI [of _ m2])
       (rule first ex_parse_twin_fs m1 m2 both)+
qed

text \<open>
  C4 as stated fails. Both modules have level 0 twice. In the first the mesh of the first
  entry does not exist, and the missing-file error is raised before the second entry is
  looked at; in the second the type is a list, and the membership test raises \<^verbatim>\<open>TypeError\<close>
  before any LOD entry is looked at.
\<close>

theorem earlier_check_counterexample:
  "parse_module ex_fs ex_dup_missing ex_assets =
     Inl (ValidationError (msg_missing_file ''h'' ''mesh'' (Path [] [''x.obj'']))) \<and>
   parse_module ex_fs ex_dup_missing ex_assets \<noteq>
     Inl (ValidationError (msg_reuses_level ''h'' (JInt 0))) \<and>
   parse_module ex_fs ex_dup_untyped ex_assets = Inl TypeError"
  by (simp add: ex_dup_missing_def ex_dup_untyped_def ex_fs_def ex_assets_def parse_eval
      dict_eval path_eval msg_missing_file_def msg_reuses_level_def)

section \<open>The thumbnails field (C10)\<close>

lemma map_of_without: "map_of (without k d) k' = (if k' = k then None else map_of d k')"
  by (induction d) (auto simp: without_def)

lemma parse_thumbnails_not_list:
  "\<not> is_list (dict_get d ''thumbnails'') \<Longrightarrow>
     parse_thumbnails fs a mid d =
       (case dict_get d ''thumbnail'' of
          JStr s \<Rightarrow>
            (case ensure_relative_path fs a (JStr s) ''thumbnail'' mid of
               Inl e \<Rightarrow> Inl e
             | Inr p \<Rightarrow> Inr [p])
        | _ \<Rightarrow> Inr [])"
  by (cases "dict_get d ''thumbnails''") (simp_all add: parse_thumbnails_def)

lemma parse_module_body_cong:
  assumes "dict_get d ''lods'' = dict_get d' ''lods''"
    and "dict_get_default d ''materials'' (JList []) = dict_get_default d' ''materials'' (JList [])"
    and "dict_get_default d ''extraFiles'' (JList []) = dict_get_default d' ''extraFiles'' (JList [])"
    and "dict_get_default d ''displayName'' (JStr mid) = dict_get_default d' ''displayName'' (JStr mid)"
    and "parse_thumbnails fs a mid d = parse_thumbnails fs a mid d'"
  shows "parse_module_body fs a d mid mtype =
           map_sum id (\<lambda>m. m\<lparr>source := d\<rparr>) (parse_module_body fs a d' mid mtype)"
  using assms
  by (simp add: parse_module_body_def parse_path_list_def split: json.splits sum.splits option.splits)

lemma parse_module_cong:
  assumes "dict_get d ''id'' = dict_get d' ''id''"
    and "dict_get d ''type'' = dict_get d' ''type''"
    and "dict_get d ''lods'' = dict_get d' ''lods''"
    and "\<And>dflt. dict_get_default d ''materials'' dflt = dict_get_default d' ''materials'' dflt"
    and "\<And>dflt. dict_get_default d ''extraFiles'' dflt = dict_get_default d' ''extraFiles'' dflt"
    and "\<And>dflt. dict_get_default d ''displayName'' dflt = dict_get_default d' ''displayName'' dflt"
    and "\<And>mid. parse_thumbnails fs a mid d = parse_thumbnails fs a mid d'"
  shows "parse_module fs (JObj d) a =
           map_sum id (\<lambda>m. m\<lparr>source := d\<rparr>) (parse_module fs (JObj d') a)"
proof -
  have "parse_module_body fs a d mid mtype =
           map_sum id (\<lambda>m. m\<lparr>source := d\<rparr>) (parse_module_body fs a d' mid mtype)" for mid mtype
    using assms(3-7) by (intro parse_module_body_cong) simp_all
  with assms(1,2) show ?thesis
    by (simp add: parse_module_def split: json.splits option.splits bool.splits)
qed

text \<open>
  C10. (1) A \<^verbatim>\<open>thumbnails\<close> field that is present and not a list is ignored by
  \<^verbatim>\<open>parse_module\<close>: the result, a module or an exception, is the one for the definition
  without that field (the module keeping the definition it came from as its source). (2)
  When \<^verbatim>\<open>thumbnails\<close> is a list the legacy \<^verbatim>\<open>thumbnail\<close> field is ignored in the same sense.
  (3) The thumbnails of a validated module are the resolved entries of the list when
  \<^verbatim>\<open>thumbnails\<close> is a list; otherwise the resolved legacy \<^verbatim>\<open>thumbnail\<close> alone when that is a
  string, and none when it is not.
\<close>

theorem thumbnails_field_precedence:
  "(\<forall>v. map_of d ''thumbnails'' = Some v \<and> \<not> is_list v \<longrightarrow>
      parse_module fs (JObj d) a =
        map_sum id (\<lambda>m. m\<lparr>source := d\<rparr>)
          (parse_module fs (JObj (without ''thumbnails'' d)) a)) \<and>
   (\<forall>ts. dict_get d ''thumbnails'' = JList ts \<longrightarrow>
      parse_module fs (JObj d) a =
        map_sum id (\<lambda>m. m\<lparr>source := d\<rparr>)
          (parse_module fs (JObj (without ''thumbnail'' d)) a)) \<and>
   (\<forall>m. parse_module fs (JObj d) a = Inr m \<longrightarrow>
      (\<forall>ts. dict_get d ''thumbnails'' = JList ts \<longrightarrow>
         ensure_all fs a ''thumbnail'' (module_id m) ts = Inr (thumbnails m)) \<and>
      (\<not> is_list (dict_get d ''thumbnails'') \<longrightarrow>
         (\<forall>s. dict_get d ''thumbnail'' = JStr s \<longrightarrow>
            (\<exists>p. ensure_relative_path fs a (JStr s) ''thumbnail'' (module_id m) = Inr p \<and>
                 thumbnails m = [p])) \<and>
         ((\<forall>s. dict_get d ''thumbnail'' \<noteq> JStr s) \<longrightarrow> thumbnails m = [])))"
proof (intro conjI allI impI)
  fix v assume "map_of d ''thumbnails'' = Some v \<and> \<not> is_list v"
  then have v: "\<not> is_list (dict_get d ''thumbnails'')"
    by (simp add: dict_eval)
  have w: "\<not> is_list (dict_get (without ''thumbnails'' d) ''thumbnails'')"
    by (simp add: dict_eval map_of_without)
  have l: "dict_get (without ''thumbnails'' d) ''thumbnail'' = dict_get d ''thumbnail''"
    by (simp add: dict_eval map_of_without)
  show "parse_module fs (JObj d) a =
        map_sum id (\<lambda>m. m\<lparr>source := d\<rparr>)
          (parse_module fs (JObj (without ''thumbnails'' d)) a)"
    by (rule parse_module_cong)
       (simp_all add: dict_eval map_of_without parse_thumbnails_not_list [OF v]
          parse_thumbnails_not_list [OF w] l [unfolded dict_eval])
next
  fix ts assume t: "dict_get d ''thumbnails'' = JList ts"
  then have t': "dict_get (without ''thumbnail'' d) ''thumbnails'' = JList ts"
    by (simp add: dict_eval map_of_without)
  show "parse_module fs (JObj d) a =
        map_sum id (\<lambda>m. m\<lparr>source := d\<rparr>)
          (parse_module fs (JObj (without ''thumbnail'' d)) a)"
    by (rule parse_module_cong)
       (simp_all add: dict_eval map_of_without parse_thumbnails_def t t' [unfolded dict_eval]
          t [unfolded dict_eval])
next
  fix m ts
  assume "parse_module fs (JObj d) a = Inr m" and "dict_get d ''thumbnails'' = JList ts"
  then show "ensure_all fs a ''thumbnail'' (module_id m) ts = Inr (thumbnails m)"
    by (elim parse_module_InrD parse_module_body_InrD) (simp add: parse_thumbnails_def)
next
  fix m s
  assume "parse_module fs (JObj d) a = Inr m" and "\<not> is_list (dict_get d ''thumbnails'')"
    and "dict_get d ''thumbnail'' = JStr s"
  then show "\<exists>p. ensure_relative_path fs a (JStr s) ''thumbnail'' (module_id m) = Inr p \<and>
                 thumbnails m = [p]"
    by (elim parse_module_InrD parse_module_body_InrD)
       (auto simp: parse_thumbnails_not_list split: sum.splits)
next
  fix m
  assume "parse_module fs (JObj d) a = Inr m" and "\<not> is_list (dict_get d ''thumbnails'')"
    and "\<forall>s. dict_get d ''thumbnail'' \<noteq> JStr s"
  then show "thumbnails m = []"
    by (elim parse_module_InrD parse_module_body_InrD)
       (auto simp: parse_thumbnails_not_list split: json.splits)
qed

text \<open>
  With \<^verbatim>\<open>thumbnails\<close> an object, or the string \<^verbatim>\<open>zz\<close> (no such file), the module validates and
  its thumbnail is the legacy \<^verbatim>\<open>t.png\<close>; with the list \<^verbatim>\<open>[u.png]\<close> beside the legacy field
  only \<^verbatim>\<open>u.png\<close> is taken.
\<close>

theorem thumbnails_field_precedence_witness:
  "parse_module ex_fs (JObj ex_thumbs_object) ex_assets =
     map_sum id (\<lambda>m. m\<lparr>source := ex_thumbs_object\<rparr>)
       (parse_module ex_fs (JObj (without ''thumbnails'' ex_thumbs_object)) ex_assets) \<and>
   (\<exists>m. parse_module ex_fs (JObj ex_thumbs_object) ex_assets = Inr m \<and>
        thumbnails m = [Path ''/'' [''w'', ''a'', ''t.png'']]) \<and>
   parse_module ex_fs (JObj ex_thumbs_string) ex_assets =
     map_sum id (\<lambda>m. m\<lparr>source := ex_thumbs_string\<rparr>)
       (parse_module ex_fs (JObj (without ''thumbnails'' ex_thumbs_string)) ex_assets) \<and>
   (\<exists>m. parse_module ex_fs (JObj ex_thumbs_string) ex_assets = Inr m \<and>
        thumbnails m = [Path ''/'' [''w'', ''a'', ''t.png'']]) \<and>
   parse_module ex_fs (JObj ex_thumbs_both) ex_assets =
     map_sum id (\<lambda>m. m\<lparr>source := ex_thumbs_both\<rparr>)
       (parse_module ex_fs (JObj (without ''thumbnail'' ex_thumbs_both)) ex_assets) \<and>
   (\<exists>m. parse_module ex_fs (JObj ex_thumbs_both) ex_assets = Inr m \<and>
        thumbnails m = [Path ''/'' [''w'', ''a'', ''u.png'']])"
proof -
  note t0 = thumbnails_field_precedence [of ex_thumbs_object ex_fs ex_assets]
  note t1 = thumbnails_field_precedence [of ex_thumbs_string ex_fs ex_assets]
  note t2 = thumbnails_field_precedence [of ex_thumbs_both ex_fs ex_assets]
  obtain m0 where m0: "parse_module ex_fs (JObj ex_thumbs_object) ex_assets = Inr m0"
    "module_id m0 = ''h''"
    by (simp add: ex_thumbs_object_def ex_fs_def ex_assets_def parse_eval dict_eval path_eval)
  obtain m1 where m1: "parse_module ex_fs (JObj ex_thumbs_string) ex_assets = Inr m1"
    "module_id m1 = ''h''"
    by (simp add: ex_thumbs_string_def ex_fs_def ex_assets_def parse_eval dict_eval path_eval)
  obtain m2 where m2: "parse_module ex_fs (JObj ex_thumbs_both) ex_assets = Inr m2"
    "module_id m2 = ''h''"
    by (simp add: ex_thumbs_both_def ex_fs_def ex_assets_def parse_eval dict_eval path_eval)
  have e: "ensure_relative_path ex_fs ex_assets (JStr ''t.png'') ''thumbnail'' ''h'' =
             Inr (Path ''/'' [''w'', ''a'', ''t.png''])"
    "ensure_all ex_fs ex_assets ''thumbnail'' ''h'' [JStr ''u.png''] =
             Inr [Path ''/'' [''w'', ''a'', ''u.png'']]"
    by (simp_all add: ensure_relative_path_def ex_fs_def ex_assets_def path_eval)
  have g: "map_of ex_thumbs_object ''thumbnails'' = Some (JObj [(''front'', JStr ''zz'')])"
    "\<not> is_list (JObj [(''front'', JStr ''zz'')])"
    "\<not> is_list (dict_get ex_thumbs_object ''thumbnails'')"
    "dict_get ex_thumbs_object ''thumbnail'' = JStr ''t.png''"
    "map_of ex_thumbs_string ''thumbnails'' = Some (JStr ''zz'')"
    "\<not> is_list (JStr ''zz'')"
    "\<not> is_list (dict_get ex_thumbs_string ''thumbnails'')"
    "dict_get ex_thumbs_string ''thumbnail'' = JStr ''t.png''"
    "dict_get ex_thumbs_both ''thumbnails'' = JList [JStr ''u.png'']"
    by (simp_all add: ex_thumbs_object_def ex_thumbs_string_def ex_thumbs_both_def dict_eval)
  have a0: "parse_module ex_fs (JObj ex_thumbs_object) ex_assets =
     map_sum id (\<lambda>m. m\<lparr>source := ex_thumbs_object\<rparr>)
       (parse_module ex_fs (JObj (without ''thumbnails'' ex_thumbs_object)) ex_assets)"
    using t0 g(1,2) by blast
  have a1: "parse_module ex_fs (JObj ex_thumbs_string) ex_assets =
     map_sum id (\<lambda>m. m\<lparr>source := ex_thumbs_string\<rparr>)
       (parse_module ex_fs (JObj (without ''thumbnails'' ex_thumbs_string)) ex_assets)"
    using t1 g(5,6) by blast
  have a2: "parse_module ex_fs (JObj ex_thumbs_both) ex_assets =
     map_sum id (\<lambda>m. m\<lparr>source := ex_thumbs_both\<rparr>)
       (parse_module ex_fs (JObj (without ''thumbnail'' ex_thumbs_both)) ex_assets)"
    using t2 g(9) by blast
  have "thumbnails m0 = [Path ''/'' [''w'', ''a'', ''t.png'']]"
    using t0 g(3,4) m0 e(1) by auto
  moreover have "thumbnails m1 = [Path ''/'' [''w'', ''a'', ''t.png'']]"
    using t1 g(7,8) m1 e(1) by auto
  moreover have "ensure_all ex_fs ex_assets ''thumbnail'' (module_id m2) [JStr ''u.png''] =
      Inr (thumbnails m2)"
    using t2 g(9) m2(1) by blast
  then have "thumbnails m2 = [Path ''/'' [''w'', ''a'', ''u.png'']]"
    unfolding m2(2) e(2) by simp
  ultimately show ?thesis using m0(1) m1(1) m2(1) a0 a1 a2 by blast
qed

end
